theory Spec2Isabelle
  imports Complex_Main
begin

section \<open>Go library functions used by the package\<close>

text \<open>
  A Go \<^verbatim>\<open>string\<close> and a \<^verbatim>\<open>[]byte\<close> are lists of bytes (\<^typ>\<open>string\<close>); a
  \<^verbatim>\<open>rune\<close> is a code point (\<^typ>\<open>nat\<close>). The functions of \<^verbatim>\<open>strings\<close>,
  \<^verbatim>\<open>unicode\<close> and \<^verbatim>\<open>utf8\<close> are written out for the ASCII range as the library
  computes them. What the library decides from its Unicode tables, from the floating
  point format or from the operating system is a field of the record \<open>golib\<close>, passed
  to every function that needs it; the type \<open>'f\<close> stands for \<^verbatim>\<open>float64\<close> and its
  \<open>0\<close> for the float zero.
\<close>

type_synonym rune = nat

record 'f golib =
  ParseFloat :: "string \<Rightarrow> 'f option"
    \<comment> \<open>\<^verbatim>\<open>strconv.ParseFloat(s, 64)\<close>; \<open>None\<close> when it returns an error\<close>
  FormatFloat :: "'f \<Rightarrow> string"
    \<comment> \<open>\<^verbatim>\<open>strconv.AppendFloat(_, v, 'g', -1, 64)\<close>\<close>
  IsLetterU :: "rune \<Rightarrow> bool"
    \<comment> \<open>\<^verbatim>\<open>unicode.IsLetter\<close> on a rune outside ASCII\<close>
  IsDigitU :: "rune \<Rightarrow> bool"
    \<comment> \<open>\<^verbatim>\<open>unicode.IsDigit\<close> on a rune outside ASCII\<close>
  ToLowerU :: "string \<Rightarrow> string"
    \<comment> \<open>\<^verbatim>\<open>strings.ToLower\<close> on a string with a byte outside ASCII\<close>
  EqualFoldU :: "string \<Rightarrow> string \<Rightarrow> bool"
    \<comment> \<open>the Unicode path of \<^verbatim>\<open>strings.EqualFold\<close>, entered at the first byte outside ASCII\<close>
  filepath_Ext :: "string \<Rightarrow> string"
  filepath_FromSlash :: "string \<Rightarrow> string"
  filepath_IsAbs :: "string \<Rightarrow> bool"
  filepath_Clean :: "string \<Rightarrow> string"
  filepath_Join :: "string \<Rightarrow> string \<Rightarrow> string"
  os_Stat :: "string \<Rightarrow> bool"
    \<comment> \<open>\<^verbatim>\<open>os.Stat(p)\<close> returns no error\<close>

definition byte :: "char \<Rightarrow> nat" where
  "byte c = of_char c"

definition isASCII :: "string \<Rightarrow> bool" where
  "isASCII s = list_all (\<lambda>c. byte c < 128) s"

definition HasPrefix :: "string \<Rightarrow> string \<Rightarrow> bool" where
  "HasPrefix s p = (take (length p) s = p)"

definition HasSuffix :: "string \<Rightarrow> string \<Rightarrow> bool" where
  "HasSuffix s p = (length p \<le> length s \<and> drop (length s - length p) s = p)"

definition TrimSuffix :: "string \<Rightarrow> string \<Rightarrow> string" where
  "TrimSuffix s p = (if HasSuffix s p then take (length s - length p) s else s)"

fun Contains :: "string \<Rightarrow> string \<Rightarrow> bool" where
  "Contains [] sub = (sub = [])"
| "Contains (c # cs) sub = (HasPrefix (c # cs) sub \<or> Contains cs sub)"

text \<open>\<^verbatim>\<open>strings.Index(s, sub)\<close> and \<^verbatim>\<open>strings.LastIndex(s, sub)\<close> for a one-byte
  \<open>sub\<close>: \<open>None\<close> is the result \<open>-1\<close>.\<close>

fun IndexByte :: "string \<Rightarrow> char \<Rightarrow> nat option" where
  "IndexByte [] b = None"
| "IndexByte (c # cs) b =
     (if c = b then Some 0 else (case IndexByte cs b of None \<Rightarrow> None | Some i \<Rightarrow> Some (Suc i)))"

fun LastIndexByte :: "string \<Rightarrow> char \<Rightarrow> nat option" where
  "LastIndexByte [] b = None"
| "LastIndexByte (c # cs) b =
     (case LastIndexByte cs b of
        Some i \<Rightarrow> Some (Suc i)
      | None \<Rightarrow> (if c = b then Some 0 else None))"

text \<open>\<^verbatim>\<open>strings.Split(s, ",")\<close>: always at least one part.\<close>

fun SplitByte :: "string \<Rightarrow> char \<Rightarrow> string list" where
  "SplitByte [] b = [[]]"
| "SplitByte (c # cs) b =
     (if c = b then [] # SplitByte cs b
      else (case SplitByte cs b of p # ps \<Rightarrow> (c # p) # ps | [] \<Rightarrow> [[c]]))"

definition ReplaceAllByte :: "string \<Rightarrow> char \<Rightarrow> char \<Rightarrow> string" where
  "ReplaceAllByte s old new = map (\<lambda>c. if c = old then new else c) s"

fun Join :: "string list \<Rightarrow> string \<Rightarrow> string" where
  "Join [] sep = []"
| "Join [x] sep = x"
| "Join (x # y # ys) sep = x @ sep @ Join (y # ys) sep"

definition isUpperASCII :: "char \<Rightarrow> bool" where
  "isUpperASCII c = (65 \<le> byte c \<and> byte c \<le> 90)"

text \<open>\<^verbatim>\<open>asciiLower\<close> of the package (and the ASCII step of \<^verbatim>\<open>strings.ToLower\<close>):
  \<^verbatim>\<open>b + 32\<close> for \<^verbatim>\<open>'A' <= b <= 'Z'\<close>.\<close>

definition asciiLower :: "char \<Rightarrow> char" where
  "asciiLower b = (if isUpperASCII b then char_of (byte b + 32) else b)"

lemma asciiLower_alphabet:
  "map asciiLower ''ABCDEFGHIJKLMNOPQRSTUVWXYZ'' = ''abcdefghijklmnopqrstuvwxyz''"
  by code_simp

lemma asciiLower_upper:
  "asciiLower CHR ''A'' = CHR ''a''" "asciiLower CHR ''B'' = CHR ''b''"
  "asciiLower CHR ''C'' = CHR ''c''" "asciiLower CHR ''D'' = CHR ''d''"
  "asciiLower CHR ''E'' = CHR ''e''" "asciiLower CHR ''F'' = CHR ''f''"
  "asciiLower CHR ''G'' = CHR ''g''" "asciiLower CHR ''H'' = CHR ''h''"
  "asciiLower CHR ''I'' = CHR ''i''" "asciiLower CHR ''J'' = CHR ''j''"
  "asciiLower CHR ''K'' = CHR ''k''" "asciiLower CHR ''L'' = CHR ''l''"
  "asciiLower CHR ''M'' = CHR ''m''" "asciiLower CHR ''N'' = CHR ''n''"
  "asciiLower CHR ''O'' = CHR ''o''" "asciiLower CHR ''P'' = CHR ''p''"
  "asciiLower CHR ''Q'' = CHR ''q''" "asciiLower CHR ''R'' = CHR ''r''"
  "asciiLower CHR ''S'' = CHR ''s''" "asciiLower CHR ''T'' = CHR ''t''"
  "asciiLower CHR ''U'' = CHR ''u''" "asciiLower CHR ''V'' = CHR ''v''"
  "asciiLower CHR ''W'' = CHR ''w''" "asciiLower CHR ''X'' = CHR ''x''"
  "asciiLower CHR ''Y'' = CHR ''y''" "asciiLower CHR ''Z'' = CHR ''z''"
  using asciiLower_alphabet by simp_all

lemma asciiLower_other: "\<not> isUpperASCII c \<Longrightarrow> asciiLower c = c"
  by (simp add: asciiLower_def)

definition ToLower :: "'f golib \<Rightarrow> string \<Rightarrow> string" where
  "ToLower L s = (if isASCII s then map asciiLower s else ToLowerU L s)"

text \<open>\<^verbatim>\<open>strings.EqualFold(s, t)\<close>: bytes are compared with ASCII case folding as long as
  both are ASCII; at the first byte outside ASCII the rest is compared rune by rune with
  the Unicode tables.\<close>

fun EqualFold :: "'f golib \<Rightarrow> string \<Rightarrow> string \<Rightarrow> bool" where
  "EqualFold L [] [] = True"
| "EqualFold L [] (t # ts) = False"
| "EqualFold L (s # ss) [] = False"
| "EqualFold L (s # ss) (t # ts) =
     (if 128 \<le> byte s \<or> 128 \<le> byte t then EqualFoldU L (s # ss) (t # ts)
      else if t = s then EqualFold L ss ts
      else if byte s < byte t \<and> isUpperASCII s \<and> byte t = byte s + 32 then EqualFold L ss ts
      else if byte t < byte s \<and> isUpperASCII t \<and> byte s = byte t + 32 then EqualFold L ss ts
      else False)"

text \<open>\<^verbatim>\<open>unicode.IsSpace\<close>, whose table is short: the ASCII white space, NEL, NBSP
  and the white space of the other planes.\<close>

definition IsSpace :: "rune \<Rightarrow> bool" where
  "IsSpace r =
     (r = 9 \<or> r = 10 \<or> r = 11 \<or> r = 12 \<or> r = 13 \<or> r = 32 \<or> r = 133 \<or> r = 160
      \<or> r = 5760 \<or> (8192 \<le> r \<and> r \<le> 8202) \<or> r = 8232 \<or> r = 8233 \<or> r = 8239
      \<or> r = 8287 \<or> r = 12288)"

definition IsLetter :: "'f golib \<Rightarrow> rune \<Rightarrow> bool" where
  "IsLetter L r =
     (if r < 128 then (65 \<le> r \<and> r \<le> 90) \<or> (97 \<le> r \<and> r \<le> 122) else IsLetterU L r)"

definition IsDigit :: "'f golib \<Rightarrow> rune \<Rightarrow> bool" where
  "IsDigit L r = (if r < 128 then 48 \<le> r \<and> r \<le> 57 else IsDigitU L r)"

subsection \<open>White space trimming, integers, UTF-8\<close>

definition asciiSpace :: "char \<Rightarrow> bool" where
  "asciiSpace c = (byte c = 9 \<or> byte c = 10 \<or> byte c = 11 \<or> byte c = 12 \<or> byte c = 13 \<or> byte c = 32)"

text \<open>The UTF-8 encodings of the white space runes outside ASCII.\<close>

definition spaceEncodings :: "string list" where
  "spaceEncodings =
     [[CHR 0xC2, CHR 0x85], [CHR 0xC2, CHR 0xA0], [CHR 0xE1, CHR 0x9A, CHR 0x80],
      [CHR 0xE2, CHR 0x80, CHR 0x80], [CHR 0xE2, CHR 0x80, CHR 0x81],
      [CHR 0xE2, CHR 0x80, CHR 0x82], [CHR 0xE2, CHR 0x80, CHR 0x83],
      [CHR 0xE2, CHR 0x80, CHR 0x84], [CHR 0xE2, CHR 0x80, CHR 0x85],
      [CHR 0xE2, CHR 0x80, CHR 0x86], [CHR 0xE2, CHR 0x80, CHR 0x87],
      [CHR 0xE2, CHR 0x80, CHR 0x88], [CHR 0xE2, CHR 0x80, CHR 0x89],
      [CHR 0xE2, CHR 0x80, CHR 0x8A], [CHR 0xE2, CHR 0x80, CHR 0xA8],
      [CHR 0xE2, CHR 0x80, CHR 0xA9], [CHR 0xE2, CHR 0x80, CHR 0xAF],
      [CHR 0xE2, CHR 0x81, CHR 0x9F], [CHR 0xE3, CHR 0x80, CHR 0x80]]"

text \<open>The number of bytes of the white space rune a string starts (ends) with, 0 when
  it starts (ends) with none.\<close>

definition spacePrefixLen :: "string \<Rightarrow> nat" where
  "spacePrefixLen s =
     (case s of
        [] \<Rightarrow> 0
      | c # _ \<Rightarrow>
          if asciiSpace c then 1
          else (case filter (HasPrefix s) spaceEncodings of e # _ \<Rightarrow> length e | [] \<Rightarrow> 0))"

definition spaceSuffixLen :: "string \<Rightarrow> nat" where
  "spaceSuffixLen s =
     (case rev s of
        [] \<Rightarrow> 0
      | c # _ \<Rightarrow>
          if asciiSpace c then 1
          else (case filter (HasSuffix s) spaceEncodings of e # _ \<Rightarrow> length e | [] \<Rightarrow> 0))"

lemma spaceEncoding_prefix_le: "filter (HasPrefix s) es = e # r \<Longrightarrow> length e \<le> length s"
proof -
  assume "filter (HasPrefix s) es = e # r"
  then have "e \<in> set (filter (HasPrefix s) es)" by simp
  then have "take (length e) s = e" by (simp add: HasPrefix_def)
  then have "length (take (length e) s) = length e" by simp
  then show ?thesis by simp
qed

lemma spaceEncoding_suffix_le: "filter (HasSuffix s) es = e # r \<Longrightarrow> length e \<le> length s"
proof -
  assume "filter (HasSuffix s) es = e # r"
  then have "e \<in> set (filter (HasSuffix s) es)" by simp
  then show ?thesis by (simp add: HasSuffix_def)
qed

lemma spacePrefixLen_le: "spacePrefixLen s \<le> length s"
  by (auto simp: spacePrefixLen_def split: list.splits dest!: spaceEncoding_prefix_le)

lemma spaceSuffixLen_le: "spaceSuffixLen s \<le> length s"
proof (cases "rev s")
  case Nil
  then show ?thesis by (simp add: spaceSuffixLen_def)
next
  case (Cons c cs)
  then have "s \<noteq> []" by auto
  then have "1 \<le> length s" by (cases s) simp_all
  with Cons show ?thesis
    by (auto simp: spaceSuffixLen_def split: list.splits dest!: spaceEncoding_suffix_le)
qed

function trimLeftSpace :: "string \<Rightarrow> string" where
  "trimLeftSpace s = (if spacePrefixLen s = 0 then s else trimLeftSpace (drop (spacePrefixLen s) s))"
  by pat_completeness auto
termination
proof (relation "measure length")
  fix s :: string
  assume "spacePrefixLen s \<noteq> 0"
  moreover have "spacePrefixLen s \<le> length s" by (rule spacePrefixLen_le)
  ultimately show "(drop (spacePrefixLen s) s, s) \<in> measure length" by simp
qed simp

function trimRightSpace :: "string \<Rightarrow> string" where
  "trimRightSpace s =
     (if spaceSuffixLen s = 0 then s else trimRightSpace (take (length s - spaceSuffixLen s) s))"
  by pat_completeness auto
termination
proof (relation "measure length")
  fix s :: string
  assume "spaceSuffixLen s \<noteq> 0"
  moreover have "spaceSuffixLen s \<le> length s" by (rule spaceSuffixLen_le)
  ultimately show "(take (length s - spaceSuffixLen s) s, s) \<in> measure length" by simp
qed simp

declare trimLeftSpace.simps [simp del] trimRightSpace.simps [simp del]

definition TrimSpace :: "string \<Rightarrow> string" where
  "TrimSpace s = trimRightSpace (trimLeftSpace s)"

text \<open>\<^verbatim>\<open>strconv.Atoi\<close>: an optional sign and decimal digits, within the range of a
  64-bit \<^verbatim>\<open>int\<close>; \<open>None\<close> when it returns an error.\<close>

definition isDigitByte :: "char \<Rightarrow> bool" where
  "isDigitByte c = (48 \<le> byte c \<and> byte c \<le> 57)"

definition digitsValue :: "string \<Rightarrow> int" where
  "digitsValue ds = foldl (\<lambda>a c. 10 * a + (int (byte c) - 48)) 0 ds"

definition Atoi :: "string \<Rightarrow> int option" where
  "Atoi s =
     (let neg = (case s of c # _ \<Rightarrow> c = CHR ''-'' | [] \<Rightarrow> False);
          ds = (case s of c # cs \<Rightarrow> if c = CHR ''-'' \<or> c = CHR ''+'' then cs else s | [] \<Rightarrow> [])
      in if ds = [] \<or> \<not> list_all isDigitByte ds then None
         else (let v = (if neg then - digitsValue ds else digitsValue ds)
               in if v < - (2 ^ 63) \<or> 2 ^ 63 - 1 < v then None else Some v))"

text \<open>\<^verbatim>\<open>utf8.DecodeRune\<close>: the rune a byte string starts with and its width; an
  invalid or short encoding is \<^verbatim>\<open>RuneError\<close> (U+FFFD) of width 1.\<close>

definition RuneError :: rune where
  "RuneError = 65533"

definition cont :: "char \<Rightarrow> nat \<Rightarrow> nat \<Rightarrow> bool" where
  "cont c lo hi = (lo \<le> byte c \<and> byte c \<le> hi)"

fun DecodeRune :: "string \<Rightarrow> rune \<times> nat" where
  "DecodeRune [] = (RuneError, 0)"
| "DecodeRune (b0 # bs) =
     (if byte b0 < 128 then (byte b0, 1)
      else if 194 \<le> byte b0 \<and> byte b0 \<le> 223 then
        (case bs of
           b1 # _ \<Rightarrow>
             if cont b1 128 191 then ((byte b0 - 192) * 64 + (byte b1 - 128), 2)
             else (RuneError, 1)
         | _ \<Rightarrow> (RuneError, 1))
      else if 224 \<le> byte b0 \<and> byte b0 \<le> 239 then
        (case bs of
           b1 # b2 # _ \<Rightarrow>
             if cont b1 (if byte b0 = 224 then 160 else 128) (if byte b0 = 237 then 159 else 191)
                \<and> cont b2 128 191
             then ((byte b0 - 224) * 4096 + (byte b1 - 128) * 64 + (byte b2 - 128), 3)
             else (RuneError, 1)
         | _ \<Rightarrow> (RuneError, 1))
      else if 240 \<le> byte b0 \<and> byte b0 \<le> 244 then
        (case bs of
           b1 # b2 # b3 # _ \<Rightarrow>
             if cont b1 (if byte b0 = 240 then 144 else 128) (if byte b0 = 244 then 143 else 191)
                \<and> cont b2 128 191 \<and> cont b3 128 191
             then ((byte b0 - 240) * 262144 + (byte b1 - 128) * 4096 + (byte b2 - 128) * 64
                   + (byte b3 - 128), 4)
             else (RuneError, 1)
         | _ \<Rightarrow> (RuneError, 1))
      else (RuneError, 1))"

text \<open>\<^verbatim>\<open>utf8.AppendRune\<close>, which \<^verbatim>\<open>strings.Builder.WriteRune\<close> calls.\<close>

definition EncodeRune :: "rune \<Rightarrow> string" where
  "EncodeRune r =
     (if r < 128 then [char_of r]
      else if r < 2048 then [char_of (192 + r div 64), char_of (128 + r mod 64)]
      else if (55296 \<le> r \<and> r \<le> 57343) \<or> 1114111 < r then [CHR 0xEF, CHR 0xBF, CHR 0xBD]
      else if r < 65536 then
        [char_of (224 + r div 4096), char_of (128 + (r div 64) mod 64), char_of (128 + r mod 64)]
      else
        [char_of (240 + r div 262144), char_of (128 + (r div 4096) mod 64),
         char_of (128 + (r div 64) mod 64), char_of (128 + r mod 64)])"

lemma DecodeRune_width: "s \<noteq> [] \<Longrightarrow> 0 < snd (DecodeRune s) \<and> snd (DecodeRune s) \<le> length s"
proof (cases s)
  case Nil
  assume "s \<noteq> []"
  with Nil show ?thesis by simp
next
  case (Cons b0 bs)
  show ?thesis
  proof (cases bs)
    case Nil
    with Cons show ?thesis by simp
  next
    case c1: (Cons b1 bs1)
    show ?thesis
    proof (cases bs1)
      case Nil
      with Cons c1 show ?thesis by simp
    next
      case c2: (Cons b2 bs2)
      show ?thesis
      proof (cases bs2)
        case Nil
        with Cons c1 c2 show ?thesis by simp
      next
        case c3: (Cons b3 bs3)
        with Cons c1 c2 show ?thesis by simp
      qed
    qed
  qed
qed

section \<open>Data model\<close>

text \<open>\<^verbatim>\<open>values.go\<close>: a parsed value is a struct with a kind and one field per kind; a
  node is an assignment or a class block.\<close>

datatype valueKind = valueNumber | valueString | valueIdent | valueArray

datatype 'f valueT =
  mkValue (Str: string) (Array: "'f valueT list") (Kind: valueKind) (Num: 'f)

datatype 'f node =
  assignNode string "'f valueT" bool
    \<comment> \<open>\<^verbatim>\<open>Name\<close>, \<^verbatim>\<open>Value\<close>, \<^verbatim>\<open>IsArray\<close>\<close>
| classNode string string "'f node list"
    \<comment> \<open>\<^verbatim>\<open>Name\<close>, \<^verbatim>\<open>Base\<close>, \<^verbatim>\<open>Body\<close>\<close>

text \<open>The texture reference and the procedural texture; a pointer field is an
  \<open>option\<close>, \<^verbatim>\<open>nil\<close> being \<open>None\<close>. \<^verbatim>\<open>TextureKind\<close> is a string type.\<close>

record 'f ProceduralColor =
  Tag :: string
  R :: 'f
  G :: 'f
  B :: 'f
  A :: 'f

record 'f ProceduralFresnel =
  A :: 'f
  B :: 'f

record 'f ProceduralIrradiance =
  Value :: 'f

record 'f ProceduralTexture =
  Color :: "'f ProceduralColor option"
  Fresnel :: "'f ProceduralFresnel option"
  Irradiance :: "'f ProceduralIrradiance option"
  Format :: string
  Func :: string
  Args :: "string list"
  Width :: int
  Height :: int
  Mip :: int

definition TextureKindPath :: string where
  "TextureKindPath = ''path''"

definition TextureKindProcedural :: string where
  "TextureKindProcedural = ''procedural''"

record 'f TextureRef =
  Procedural :: "'f ProceduralTexture option"
  Raw :: string
  Kind :: string
  ParsedOK :: bool

text \<open>The zero value \<^verbatim>\<open>TextureRef{}\<close>.\<close>

definition zeroTextureRef :: "'f TextureRef" where
  "zeroTextureRef = \<lparr>Procedural = None, Raw = [], Kind = [], ParsedOK = False\<rparr>"

record 'f UVTransform =
  Aside :: "'f list"
  Up :: "'f list"
  Dir :: "'f list"
  Pos :: "'f list"

definition zeroUVTransform :: "'f UVTransform" where
  "zeroUVTransform = \<lparr>Aside = [], Up = [], Dir = [], Pos = []\<rparr>"

record 'f Stage =
  Name :: string
  Texture :: "'f TextureRef"
  UVSource :: string
  TexGen :: string
  UVTransform :: "'f UVTransform option"
  extras :: "'f node list"

definition zeroStage :: "'f Stage" where
  "zeroStage = \<lparr>Name = [], Texture = zeroTextureRef, UVSource = [], TexGen = [],
     UVTransform = None, extras = []\<rparr>"

record 'f TexGen =
  Name :: string
  Base :: string
  UVSource :: string
  UVTransform :: "'f UVTransform option"
  extras :: "'f node list"

definition zeroTexGen :: "'f TexGen" where
  "zeroTexGen = \<lparr>Name = [], Base = [], UVSource = [], UVTransform = None, extras = []\<rparr>"

record 'f Material =
  Ambient :: "'f list"
  Diffuse :: "'f list"
  ForcedDiffuse :: "'f list"
  Emmisive :: "'f list"
  Specular :: "'f list"
  SpecularPower :: "'f option"
  PixelShaderID :: string
  VertexShaderID :: string
  Stages :: "'f Stage list"
  TexGens :: "'f TexGen list"
  extras :: "'f node list"

text \<open>The zero value \<^verbatim>\<open>Material{}\<close>, which \<^verbatim>\<open>parseMaterial\<close> starts from.\<close>

definition zeroMaterial :: "'f Material" where
  "zeroMaterial = \<lparr>Ambient = [], Diffuse = [], ForcedDiffuse = [], Emmisive = [], Specular = [],
     SpecularPower = None, PixelShaderID = [], VertexShaderID = [], Stages = [], TexGens = [],
     extras = []\<rparr>"

text \<open>\<^verbatim>\<open>options.go\<close>. An options pointer is an \<open>option\<close>; \<^verbatim>\<open>normalize\<close> gives the
  defaults for \<^verbatim>\<open>nil\<close>.\<close>

record ParseOptions =
  DisableCaseInsensitive :: bool
  DisableComments :: bool
  DisableRelaxedNumbers :: bool

record FormatOptions =
  Indent :: string

record ValidateOptions =
  GameRoot :: string
  ExcludePaths :: "string list"
  DisableFileCheck :: bool
  DisableExtensionsCheck :: bool
  DisableShaderNameCheck :: bool

record TextureValidateOptions =
  DisableProceduralFnCheck :: bool
  DisableProceduralArgsCheck :: bool
  DisableTextureTagCheck :: bool

definition normalizeParseOptions :: "ParseOptions option \<Rightarrow> ParseOptions" where
  "normalizeParseOptions o' =
     (case o' of
        None \<Rightarrow> \<lparr>DisableCaseInsensitive = False, DisableComments = False,
                  DisableRelaxedNumbers = False\<rparr>
      | Some opt \<Rightarrow> opt)"

definition normalizeFormatOptions :: "FormatOptions option \<Rightarrow> FormatOptions" where
  "normalizeFormatOptions o' =
     (case o' of
        None \<Rightarrow> \<lparr>Indent = ''    ''\<rparr>
      | Some opt \<Rightarrow> (if Indent opt = [] then opt\<lparr>Indent := ''    ''\<rparr> else opt))"

definition normalizeValidateOptions :: "ValidateOptions option \<Rightarrow> ValidateOptions" where
  "normalizeValidateOptions o' =
     (case o' of
        None \<Rightarrow> \<lparr>GameRoot = [], ExcludePaths = [], DisableFileCheck = True,
                  DisableExtensionsCheck = False, DisableShaderNameCheck = False\<rparr>
      | Some opt \<Rightarrow> (if GameRoot opt = [] then opt\<lparr>DisableFileCheck := True\<rparr> else opt))"

definition normalizeTextureValidateOptions ::
  "TextureValidateOptions option \<Rightarrow> TextureValidateOptions" where
  "normalizeTextureValidateOptions o' =
     (case o' of
        None \<Rightarrow> \<lparr>DisableProceduralFnCheck = False, DisableProceduralArgsCheck = False,
                  DisableTextureTagCheck = False\<rparr>
      | Some opt \<Rightarrow> opt)"

text \<open>The errors of the package: the three sentinel errors, the two wrapped ones with
  the position and the message they are formatted with.\<close>

datatype error =
  ErrBinaryRVMAT
| ErrLex nat nat string
| ErrParse nat nat string
| OutOfFuel

section \<open>Texture references\<close>

definition NormalizeTextureRaw :: "'f golib \<Rightarrow> string \<Rightarrow> string" where
  "NormalizeTextureRaw L raw =
     (let s = TrimSpace raw; ls = ToLower L s
      in if HasPrefix ls ''texture=\"'' then
           TrimSpace (TrimSuffix (TrimSuffix (drop 9 s) ''\";'') ''\"'')
         else TrimSpace (TrimSuffix s ''\";''))"

definition splitCSV :: "string \<Rightarrow> string list" where
  "splitCSV s = (if TrimSpace s = [] then [] else map TrimSpace (SplitByte s (CHR '','')))"

definition parseFunc :: "string \<Rightarrow> (string \<times> string list) option" where
  "parseFunc s =
     (case (IndexByte s (CHR ''(''), LastIndexByte s (CHR '')'')) of
        (Some open', Some closeIdx) \<Rightarrow>
          if open' = 0 \<or> closeIdx \<le> open' then None
          else Some (TrimSpace (take open' s),
                     map TrimSpace (splitCSV (take (closeIdx - (open' + 1)) (drop (open' + 1) s))))
      | _ \<Rightarrow> None)"

definition parseFloatArg :: "'f golib \<Rightarrow> string \<Rightarrow> 'f option" where
  "parseFloatArg L s = (let t = TrimSpace s in if t = [] then None else ParseFloat L t)"

definition parseProceduralColor :: "'f golib \<Rightarrow> 'f ProceduralTexture \<Rightarrow> 'f ProceduralTexture" where
  "parseProceduralColor L pt =
     (if length (Args pt) \<noteq> 4 \<and> length (Args pt) \<noteq> 5 then pt
      else (case parseFloatArg L (Args pt ! 0) of
        None \<Rightarrow> pt
      | Some r \<Rightarrow> (case parseFloatArg L (Args pt ! 1) of
        None \<Rightarrow> pt
      | Some g \<Rightarrow> (case parseFloatArg L (Args pt ! 2) of
        None \<Rightarrow> pt
      | Some b \<Rightarrow> (case parseFloatArg L (Args pt ! 3) of
        None \<Rightarrow> pt
      | Some a \<Rightarrow>
          pt\<lparr>Color := Some \<lparr>Tag = (if length (Args pt) = 5 then Args pt ! 4 else []),
                              R = r, G = g, B = b, A = a\<rparr>\<rparr>)))))"

definition parseProceduralFresnel :: "('f::zero) golib \<Rightarrow> 'f ProceduralTexture \<Rightarrow> 'f ProceduralTexture" where
  "parseProceduralFresnel L pt =
     (if length (Args pt) \<noteq> 1 \<and> length (Args pt) \<noteq> 2 then pt
      else (case parseFloatArg L (Args pt ! 0) of
        None \<Rightarrow> pt
      | Some a \<Rightarrow>
          if length (Args pt) = 2 then
            (case parseFloatArg L (Args pt ! 1) of
               None \<Rightarrow> pt
             | Some b \<Rightarrow> pt\<lparr>Fresnel := Some \<lparr>A = a, B = b\<rparr>\<rparr>)
          else pt\<lparr>Fresnel := Some \<lparr>A = a, B = 0\<rparr>\<rparr>))"

definition parseProceduralIrradiance :: "'f golib \<Rightarrow> 'f ProceduralTexture \<Rightarrow> 'f ProceduralTexture" where
  "parseProceduralIrradiance L pt =
     (if length (Args pt) \<noteq> 1 then pt
      else (case parseFloatArg L (Args pt ! 0) of
        None \<Rightarrow> pt
      | Some v \<Rightarrow> pt\<lparr>Irradiance := Some \<lparr>Value = v\<rparr>\<rparr>))"

definition parseProceduralArgs :: "('f::zero) golib \<Rightarrow> 'f ProceduralTexture \<Rightarrow> 'f ProceduralTexture" where
  "parseProceduralArgs L pt =
     (let fn = ToLower L (Func pt)
      in if fn = ''color'' then parseProceduralColor L pt
         else if fn = ''fresnel'' then parseProceduralFresnel L pt
         else if fn = ''fresnelglass'' then parseProceduralFresnel L pt
         else if fn = ''irradiance'' then parseProceduralIrradiance L pt
         else pt)"

definition parseProcedural :: "('f::zero) golib \<Rightarrow> string \<Rightarrow> 'f ProceduralTexture option" where
  "parseProcedural L raw =
     (if \<not> HasPrefix raw ''#('' then None
      else (case IndexByte raw (CHR '')'') of
        None \<Rightarrow> None
      | Some closeIdx \<Rightarrow>
          (let headParts = splitCSV (take (closeIdx - 2) (drop 2 raw))
           in if length headParts < 4 then None
              else (case Atoi (TrimSpace (headParts ! 1)) of
                None \<Rightarrow> None
              | Some w \<Rightarrow> (case Atoi (TrimSpace (headParts ! 2)) of
                None \<Rightarrow> None
              | Some h \<Rightarrow> (case Atoi (TrimSpace (headParts ! 3)) of
                None \<Rightarrow> None
              | Some mip \<Rightarrow>
                  (let remain = TrimSpace (drop (closeIdx + 1) raw)
                   in if remain = [] then None
                      else (case parseFunc remain of
                        None \<Rightarrow> None
                      | Some (funcName, args) \<Rightarrow>
                          Some (parseProceduralArgs L
                            \<lparr>Color = None, Fresnel = None, Irradiance = None,
                             Format = TrimSpace (headParts ! 0), Func = funcName, Args = args,
                             Width = w, Height = h, Mip = mip\<rparr>)))))))))"

definition ParseTextureRef :: "('f::zero) golib \<Rightarrow> string \<Rightarrow> 'f TextureRef" where
  "ParseTextureRef L raw0 =
     (let raw = NormalizeTextureRaw L raw0
      in if HasPrefix raw ''#('' then
           (case parseProcedural L raw of
              Some pt \<Rightarrow> \<lparr>Procedural = Some pt, Raw = raw, Kind = TextureKindProcedural,
                           ParsedOK = True\<rparr>
            | None \<Rightarrow> \<lparr>Procedural = None, Raw = raw, Kind = TextureKindProcedural,
                        ParsedOK = False\<rparr>)
         else \<lparr>Procedural = None, Raw = raw, Kind = TextureKindPath, ParsedOK = False\<rparr>)"

definition IsProcedural :: "'f TextureRef \<Rightarrow> bool" where
  "IsProcedural t = (Kind t = TextureKindProcedural)"

definition IsPath :: "'f TextureRef \<Rightarrow> bool" where
  "IsPath t = (Kind t = TextureKindPath)"

definition hasVolume :: "string \<Rightarrow> bool" where
  "hasVolume p = (2 \<le> length p \<and> p ! 1 = CHR '':'')"

definition normalizeOSPath :: "'f golib \<Rightarrow> string \<Rightarrow> string" where
  "normalizeOSPath L p = filepath_FromSlash L (ReplaceAllByte p (CHR 0x5C) (CHR ''/''))"

text \<open>\<^verbatim>\<open>PathResolver.ResolvePath\<close>; the resolver holds \<^verbatim>\<open>GameRoot\<close> only.\<close>

definition ResolvePath :: "'f golib \<Rightarrow> string \<Rightarrow> string \<Rightarrow> string" where
  "ResolvePath L gameRoot raw =
     (if raw = [] then []
      else (let nrm = normalizeOSPath L raw
            in if filepath_IsAbs L nrm \<or> hasVolume nrm then filepath_Clean L nrm
               else if gameRoot = [] then filepath_Clean L nrm
               else filepath_Clean L (filepath_Join L gameRoot nrm)))"

section \<open>Lexer\<close>

datatype tokenType =
  tokEOF | tokIdent | tokNumber | tokString | tokLBrace | tokRBrace | tokLBracket
| tokRBracket | tokEqual | tokSemicolon | tokColon | tokComma | tokClass

record token =
  Lit :: string
  Type :: tokenType
  Line :: nat
  Col :: nat

text \<open>The zero value \<^verbatim>\<open>token{}\<close>.\<close>

definition zeroToken :: token where
  "zeroToken = \<lparr>Lit = [], Type = tokEOF, Line = 0, Col = 0\<rparr>"

text \<open>The lexer: \<open>lx_r\<close> holds the bytes its reader has not delivered yet, \<open>lx_ch\<close> the
  rune read last, \<open>lx_line\<close> and \<open>lx_col\<close> the position. The options, which never change,
  are an argument of the functions.\<close>

record lexer =
  lx_r :: string
  lx_line :: nat
  lx_col :: nat
  lx_ch :: rune
  lx_eof :: bool

definition read :: "lexer \<Rightarrow> lexer" where
  "read l =
     (case lx_r l of
        [] \<Rightarrow> l\<lparr>lx_eof := True, lx_ch := 0\<rparr>
      | _ # _ \<Rightarrow>
          (let c = fst (DecodeRune (lx_r l)); n = snd (DecodeRune (lx_r l))
           in if c = 10 then l\<lparr>lx_r := drop n (lx_r l), lx_line := lx_line l + 1, lx_col := 0, lx_ch := c\<rparr>
              else l\<lparr>lx_r := drop n (lx_r l), lx_col := lx_col l + 1, lx_ch := c\<rparr>))"

definition peekRune :: "lexer \<Rightarrow> rune" where
  "peekRune l = (case lx_r l of [] \<Rightarrow> 0 | _ # _ \<Rightarrow> fst (DecodeRune (lx_r l)))"

definition newLexer :: "string \<Rightarrow> lexer" where
  "newLexer data =
     (let l = read \<lparr>lx_r = data, lx_line = 1, lx_col = 0, lx_ch = 0, lx_eof = False\<rparr>
      in if lx_ch l = 65279 then read l else l)"

definition lexError :: "lexer \<Rightarrow> string \<Rightarrow> error" where
  "lexError l msg = ErrLex (lx_line l) (lx_col l) msg"

definition isIdentStart :: "'f golib \<Rightarrow> rune \<Rightarrow> bool" where
  "isIdentStart L c = (IsLetter L c \<or> c = byte (CHR ''_'') \<or> c = byte (CHR ''$''))"

definition isIdentPart :: "'f golib \<Rightarrow> rune \<Rightarrow> bool" where
  "isIdentPart L c = (IsLetter L c \<or> IsDigit L c \<or> c = byte (CHR ''_'') \<or> c = byte (CHR ''$''))"

definition isNumberStart :: "'f golib \<Rightarrow> rune \<Rightarrow> bool" where
  "isNumberStart L c = (IsDigit L c \<or> c = byte (CHR ''-''))"

definition isWordPart :: "'f golib \<Rightarrow> rune \<Rightarrow> bool" where
  "isWordPart L c =
     (isIdentPart L c \<or> c = byte (CHR ''.'') \<or> c = byte (CHR ''+'') \<or> c = byte (CHR ''-''))"

text \<open>The measure of the lexer loops: every \<^verbatim>\<open>read\<close> before the end of the input
  takes a byte or sets \<open>lx_eof\<close>.\<close>

definition lexSize :: "lexer \<Rightarrow> nat" where
  "lexSize l = length (lx_r l) + (if lx_eof l then 0 else 1)"

lemma read_lx_r: "length (lx_r (read l)) \<le> length (lx_r l)"
  by (simp add: read_def Let_def split: list.splits)

lemma read_not_eof: "\<not> lx_eof (read l) \<Longrightarrow> length (lx_r (read l)) < length (lx_r l)"
proof (cases "lx_r l")
  case Nil
  assume "\<not> lx_eof (read l)"
  with Nil show ?thesis by (simp add: read_def)
next
  case (Cons b bs)
  then have "lx_r l \<noteq> []" by simp
  then have "0 < snd (DecodeRune (lx_r l))" by (simp add: DecodeRune_width)
  with Cons show ?thesis by (simp add: read_def Let_def)
qed

lemma read_lexSize: "\<not> lx_eof l \<Longrightarrow> lexSize (read l) < lexSize l"
proof (cases "lx_r l")
  case Nil
  assume "\<not> lx_eof l"
  with Nil show ?thesis by (simp add: read_def lexSize_def)
next
  case (Cons b bs)
  assume e: "\<not> lx_eof l"
  from Cons have "lx_r l \<noteq> []" by simp
  then have "0 < snd (DecodeRune (lx_r l))" by (simp add: DecodeRune_width)
  with Cons e show ?thesis by (simp add: read_def Let_def lexSize_def)
qed

lemma read_lexSize_le: "lexSize (read l) \<le> lexSize l"
  by (cases "lx_r l") (simp_all add: read_def Let_def lexSize_def)

text \<open>\<^verbatim>\<open>skipWhitespace\<close>. Its loops are functions of their own; the flag returned with
  the lexer says that the loop left through \<^verbatim>\<open>return\<close>.\<close>

function skipSpaces :: "lexer \<Rightarrow> lexer \<times> bool" where
  "skipSpaces l =
     (if IsSpace (lx_ch l) then
        (if lx_eof (read l) then (read l, True) else skipSpaces (read l))
      else (l, False))"
  by pat_completeness auto
termination
  by (relation "measure (\<lambda>l. length (lx_r l))") (simp_all add: read_not_eof)

function skipLine :: "lexer \<Rightarrow> lexer" where
  "skipLine l = (if lx_ch l \<noteq> 10 \<and> \<not> lx_eof l then skipLine (read l) else l)"
  by pat_completeness auto
termination
  by (relation "measure lexSize") (simp_all add: read_lexSize)

function skipBlock :: "lexer \<Rightarrow> lexer \<times> bool" where
  "skipBlock l =
     (if lx_eof l then (l, True)
      else if lx_ch l = byte (CHR ''*'') \<and> peekRune l = byte (CHR ''/'') then (read (read l), False)
      else skipBlock (read l))"
  by pat_completeness auto
termination
  by (relation "measure lexSize") (simp_all add: read_lexSize)

declare skipSpaces.simps [simp del] skipLine.simps [simp del] skipBlock.simps [simp del]

lemma skipSpaces_lx_r: "length (lx_r (fst (skipSpaces l))) \<le> length (lx_r l)"
proof (induction l rule: skipSpaces.induct)
  case (1 l)
  show ?case
  proof (cases "IsSpace (lx_ch l) \<and> \<not> lx_eof (read l)")
    case True
    with 1 have "length (lx_r (fst (skipSpaces (read l)))) \<le> length (lx_r (read l))" by simp
    also have "\<dots> \<le> length (lx_r l)" by (rule read_lx_r)
    finally show ?thesis using True by (subst skipSpaces.simps) simp
  next
    case False
    then show ?thesis by (subst skipSpaces.simps) (auto simp: read_lx_r)
  qed
qed

lemma skipLine_lx_r: "length (lx_r (skipLine l)) \<le> length (lx_r l)"
proof (induction l rule: skipLine.induct)
  case (1 l)
  show ?case
  proof (cases "lx_ch l \<noteq> 10 \<and> \<not> lx_eof l")
    case True
    with 1 have "length (lx_r (skipLine (read l))) \<le> length (lx_r (read l))" by simp
    also have "\<dots> \<le> length (lx_r l)" by (rule read_lx_r)
    finally show ?thesis using True by (subst skipLine.simps) simp
  next
    case False
    then show ?thesis by (subst skipLine.simps) auto
  qed
qed

lemma skipBlock_lx_r: "length (lx_r (fst (skipBlock l))) \<le> length (lx_r l)"
proof (induction l rule: skipBlock.induct)
  case (1 l)
  show ?case
  proof (cases "lx_eof l")
    case True
    then show ?thesis by (subst skipBlock.simps) simp
  next
    case False
    show ?thesis
    proof (cases "lx_ch l = byte (CHR ''*'') \<and> peekRune l = byte (CHR ''/'')")
      case True
      have "length (lx_r (read (read l))) \<le> length (lx_r (read l))" by (rule read_lx_r)
      also have "\<dots> \<le> length (lx_r l)" by (rule read_lx_r)
      finally show ?thesis using True False by (subst skipBlock.simps) simp
    next
      case nb: False
      with False 1 have "length (lx_r (fst (skipBlock (read l)))) \<le> length (lx_r (read l))" by simp
      also have "\<dots> \<le> length (lx_r l)" by (rule read_lx_r)
      finally show ?thesis using nb False by (subst skipBlock.simps) auto
    qed
  qed
qed

lemma peekRune_read_read:
  "peekRune l \<noteq> 0 \<Longrightarrow> length (lx_r (read (read l))) < length (lx_r l)"
proof -
  assume "peekRune l \<noteq> 0"
  then have ne: "lx_r l \<noteq> []" by (auto simp: peekRune_def)
  then have "0 < snd (DecodeRune (lx_r l))" by (simp add: DecodeRune_width)
  with ne have "length (lx_r (read l)) < length (lx_r l)"
    by (cases "lx_r l") (simp_all add: read_def Let_def)
  moreover have "length (lx_r (read (read l))) \<le> length (lx_r (read l))" by (rule read_lx_r)
  ultimately show ?thesis by simp
qed

function skipWhitespace :: "ParseOptions \<Rightarrow> lexer \<Rightarrow> lexer" where
  "skipWhitespace opt l =
     (case skipSpaces l of
        (l1, True) \<Rightarrow> l1
      | (l1, False) \<Rightarrow>
          if \<not> DisableComments opt \<and> lx_ch l1 = byte (CHR ''/'') then
            (if peekRune l1 = byte (CHR ''/'') then skipWhitespace opt (skipLine (read (read l1)))
             else if peekRune l1 = byte (CHR ''*'') then
               (case skipBlock (read (read l1)) of
                  (l2, True) \<Rightarrow> l2
                | (l2, False) \<Rightarrow> skipWhitespace opt l2)
             else l1)
          else l1)"
  by pat_completeness auto
termination
proof (relation "measure (\<lambda>(opt, l). length (lx_r l))")
  show "wf (measure (\<lambda>(opt, l). length (lx_r l)))" by simp
next
  fix opt :: ParseOptions and l x1 :: lexer and x2 :: bool
  assume s: "(x1, x2) = skipSpaces l" and p: "peekRune x1 = byte (CHR ''/'')"
  from s have "length (lx_r x1) \<le> length (lx_r l)"
    using skipSpaces_lx_r [of l] by (metis fst_conv)
  moreover from p have "peekRune x1 \<noteq> 0" by (simp add: byte_def)
  then have "length (lx_r (read (read x1))) < length (lx_r x1)" by (rule peekRune_read_read)
  moreover have "length (lx_r (skipLine (read (read x1)))) \<le> length (lx_r (read (read x1)))"
    by (rule skipLine_lx_r)
  ultimately show "((opt, skipLine (read (read x1))), (opt, l)) \<in> measure (\<lambda>(opt, l). length (lx_r l))"
    by simp
next
  fix opt :: ParseOptions and l x1 x1a :: lexer and x2 x2a :: bool
  assume s: "(x1, x2) = skipSpaces l" and p: "peekRune x1 = byte (CHR ''*'')"
    and b: "(x1a, x2a) = skipBlock (read (read x1))"
  from s have "length (lx_r x1) \<le> length (lx_r l)"
    using skipSpaces_lx_r [of l] by (metis fst_conv)
  moreover from p have "peekRune x1 \<noteq> 0" by (simp add: byte_def)
  then have "length (lx_r (read (read x1))) < length (lx_r x1)" by (rule peekRune_read_read)
  moreover from b have "length (lx_r x1a) \<le> length (lx_r (read (read x1)))"
    using skipBlock_lx_r [of "read (read x1)"] by (metis fst_conv)
  ultimately show "((opt, x1a), (opt, l)) \<in> measure (\<lambda>(opt, l). length (lx_r l))"
    by simp
qed

declare skipWhitespace.simps [simp del]

text \<open>\<^verbatim>\<open>readIdent\<close> and \<^verbatim>\<open>readNumberOrIdent\<close>: the loop with the bytes written to the
  builder so far.\<close>

function readWhile :: "(rune \<Rightarrow> bool) \<Rightarrow> lexer \<Rightarrow> string \<Rightarrow> string \<times> lexer" where
  "readWhile part l b =
     (if part (lx_ch l) then
        (if lx_eof (read l) then (b @ EncodeRune (lx_ch l), read l)
         else readWhile part (read l) (b @ EncodeRune (lx_ch l)))
      else (b, l))"
  by pat_completeness auto
termination
  by (relation "measure (\<lambda>(part, l, b). length (lx_r l))") (simp_all add: read_not_eof)

declare readWhile.simps [simp del]

definition readIdent :: "'f golib \<Rightarrow> lexer \<Rightarrow> string \<times> lexer" where
  "readIdent L l = readWhile (isIdentPart L) l []"

definition readNumberOrIdent :: "'f golib \<Rightarrow> lexer \<Rightarrow> string \<times> lexer" where
  "readNumberOrIdent L l = readWhile (isWordPart L) l []"

text \<open>\<^verbatim>\<open>readString\<close>: the loop after the opening quote was consumed.\<close>

function readStringLoop :: "lexer \<Rightarrow> string \<Rightarrow> (string \<times> error option) \<times> lexer" where
  "readStringLoop l b =
     (if lx_eof l then (([], Some (lexError l ''unterminated string'')), l)
      else if lx_ch l = byte (CHR 0x22) then
        (if peekRune l = byte (CHR 0x22) then readStringLoop (read (read l)) (b @ [CHR 0x22])
         else ((b, None), read l))
      else if lx_ch l = byte (CHR 0x5C)
              \<and> (peekRune l = byte (CHR 0x5C) \<or> peekRune l = byte (CHR 0x22)) then
        readStringLoop (read (read l)) (b @ EncodeRune (lx_ch (read l)))
      else readStringLoop (read l) (b @ EncodeRune (lx_ch l)))"
  by pat_completeness auto
termination
proof (relation "measure (\<lambda>(l, b). lexSize l)")
  show "wf (measure (\<lambda>(l, b). lexSize l))" by simp
next
  fix l :: lexer and b :: string
  assume "\<not> lx_eof l"
  then have "lexSize (read l) < lexSize l" by (rule read_lexSize)
  moreover have "lexSize (read (read l)) \<le> lexSize (read l)" by (rule read_lexSize_le)
  ultimately show "((read (read l), b @ [CHR 0x22]), l, b) \<in> measure (\<lambda>(l, b). lexSize l)"
    by simp
next
  fix l :: lexer and b :: string
  assume "\<not> lx_eof l"
  then have "lexSize (read l) < lexSize l" by (rule read_lexSize)
  moreover have "lexSize (read (read l)) \<le> lexSize (read l)" by (rule read_lexSize_le)
  ultimately show "((read (read l), b @ EncodeRune (lx_ch (read l))), l, b)
      \<in> measure (\<lambda>(l, b). lexSize l)"
    by simp
next
  fix l :: lexer and b :: string
  assume "\<not> lx_eof l"
  then have "lexSize (read l) < lexSize l" by (rule read_lexSize)
  then show "((read l, b @ EncodeRune (lx_ch l)), l, b) \<in> measure (\<lambda>(l, b). lexSize l)"
    by simp
qed

declare readStringLoop.simps [simp del]

definition readString :: "lexer \<Rightarrow> (string \<times> error option) \<times> lexer" where
  "readString l = readStringLoop (read l) []"

text \<open>The runes of a string, as \<^verbatim>\<open>for _, r := range s\<close> delivers them.\<close>

function runes :: "string \<Rightarrow> rune list" where
  "runes s = (if s = [] then [] else fst (DecodeRune s) # runes (drop (snd (DecodeRune s)) s))"
  by pat_completeness auto
termination
  by (relation "measure length") (simp_all add: DecodeRune_width)

declare runes.simps [simp del]

definition isNumberRune :: "'f golib \<Rightarrow> rune \<Rightarrow> bool" where
  "isNumberRune L c =
     (IsDigit L c \<or> c = byte (CHR ''.'') \<or> c = byte (CHR ''+'') \<or> c = byte (CHR ''-'')
      \<or> c = byte (CHR ''e'') \<or> c = byte (CHR ''E''))"

definition isValidNumber :: "'f golib \<Rightarrow> string \<Rightarrow> bool" where
  "isValidNumber L s =
     (if s = [] then False
      else if \<not> list_all (isNumberRune L) (runes s) then False
      else ParseFloat L s \<noteq> None)"

definition mkToken :: "tokenType \<Rightarrow> string \<Rightarrow> nat \<Rightarrow> nat \<Rightarrow> token" where
  "mkToken tt lit line col = \<lparr>Lit = lit, Type = tt, Line = line, Col = col\<rparr>"

text \<open>\<^verbatim>\<open>lexer.next\<close>: the token, the error (if any) and the lexer afterwards.\<close>

definition lexNext :: "'f golib \<Rightarrow> ParseOptions \<Rightarrow> lexer \<Rightarrow> (token \<times> error option) \<times> lexer" where
  "lexNext L opt l0 =
     (let l = skipWhitespace opt l0; startLine = lx_line l; startCol = lx_col l
      in if lx_eof l then ((mkToken tokEOF [] startLine startCol, None), l)
         else if lx_ch l = byte (CHR ''{'') then
           ((mkToken tokLBrace ''{'' startLine startCol, None), read l)
         else if lx_ch l = byte (CHR ''}'') then
           ((mkToken tokRBrace ''}'' startLine startCol, None), read l)
         else if lx_ch l = byte (CHR ''['') then
           ((mkToken tokLBracket ''['' startLine startCol, None), read l)
         else if lx_ch l = byte (CHR '']'') then
           ((mkToken tokRBracket '']'' startLine startCol, None), read l)
         else if lx_ch l = byte (CHR ''='') then
           ((mkToken tokEqual ''='' startLine startCol, None), read l)
         else if lx_ch l = byte (CHR '';'') then
           ((mkToken tokSemicolon '';'' startLine startCol, None), read l)
         else if lx_ch l = byte (CHR '':'') then
           ((mkToken tokColon '':'' startLine startCol, None), read l)
         else if lx_ch l = byte (CHR '','') then
           ((mkToken tokComma '','' startLine startCol, None), read l)
         else if lx_ch l = byte (CHR 0x22) then
           (case readString l of
              ((lit, err), l') \<Rightarrow> ((mkToken tokString lit startLine startCol, err), l'))
         else if isIdentStart L (lx_ch l) then
           (case readIdent L l of
              (lit, l') \<Rightarrow>
                if EqualFold L lit ''class'' then ((mkToken tokClass lit startLine startCol, None), l')
                else ((mkToken tokIdent lit startLine startCol, None), l'))
         else if isNumberStart L (lx_ch l) then
           (case readNumberOrIdent L l of
              (lit, l') \<Rightarrow>
                if isValidNumber L lit then ((mkToken tokNumber lit startLine startCol, None), l')
                else ((mkToken tokIdent lit startLine startCol, None), l'))
         else
           ((zeroToken,
             Some (lexError l (''unexpected character '' @ [CHR 0x27] @ EncodeRune (lx_ch l)
                               @ [CHR 0x27]))), l))"

section \<open>Parser\<close>

text \<open>The parser holds the lexer and one buffered token. A parsing function returns the
  error, or its result and the parser afterwards; \<^verbatim>\<open>next\<close> and \<^verbatim>\<open>peek\<close> return the token
  together with the error, because some callers look at the token and drop the error.
  The loops and the recursive functions take fuel, one unit per call; running out of it
  is the error \<open>OutOfFuel\<close>, which the package does not have.\<close>

record parser =
  p_l :: lexer
  p_buf :: token
  p_has :: bool

definition newParser :: "string \<Rightarrow> parser" where
  "newParser data = \<lparr>p_l = newLexer data, p_buf = zeroToken, p_has = False\<rparr>"

definition pnext :: "'f golib \<Rightarrow> ParseOptions \<Rightarrow> parser \<Rightarrow> (token \<times> error option) \<times> parser" where
  "pnext L opt p =
     (if p_has p then ((p_buf p, None), p\<lparr>p_has := False\<rparr>)
      else (case lexNext L opt (p_l p) of (res, l') \<Rightarrow> (res, p\<lparr>p_l := l'\<rparr>)))"

definition ppeek :: "'f golib \<Rightarrow> ParseOptions \<Rightarrow> parser \<Rightarrow> (token \<times> error option) \<times> parser" where
  "ppeek L opt p =
     (if p_has p then ((p_buf p, None), p)
      else (case lexNext L opt (p_l p) of
              ((tok, Some e), l') \<Rightarrow> ((tok, Some e), p\<lparr>p_l := l'\<rparr>)
            | ((tok, None), l') \<Rightarrow> ((tok, None), p\<lparr>p_l := l', p_buf := tok, p_has := True\<rparr>)))"

definition tokenName :: "tokenType \<Rightarrow> string" where
  "tokenName tt =
     (case tt of
        tokEOF \<Rightarrow> ''EOF'' | tokIdent \<Rightarrow> ''identifier'' | tokNumber \<Rightarrow> ''number''
      | tokString \<Rightarrow> ''string'' | tokLBrace \<Rightarrow> ''{'' | tokRBrace \<Rightarrow> ''}''
      | tokLBracket \<Rightarrow> ''['' | tokRBracket \<Rightarrow> '']'' | tokEqual \<Rightarrow> ''=''
      | tokSemicolon \<Rightarrow> '';'' | tokColon \<Rightarrow> '':'' | tokComma \<Rightarrow> '','' | tokClass \<Rightarrow> ''class'')"

text \<open>\<^verbatim>\<open>parser.errorf\<close>: the parse error at the position of a token.\<close>

definition parseError :: "token \<Rightarrow> string \<Rightarrow> error" where
  "parseError tok msg = ErrParse (Line tok) (Col tok) msg"

definition expect :: "'f golib \<Rightarrow> ParseOptions \<Rightarrow> tokenType \<Rightarrow> parser \<Rightarrow> error + (token \<times> parser)" where
  "expect L opt tt p =
     (case pnext L opt p of
        ((tok, Some e), p') \<Rightarrow> Inl e
      | ((tok, None), p') \<Rightarrow>
          if Type tok \<noteq> tt then Inl (parseError tok (''expected '' @ tokenName tt))
          else Inr (tok, p'))"

definition expectSemicolon :: "'f golib \<Rightarrow> ParseOptions \<Rightarrow> parser \<Rightarrow> error + parser" where
  "expectSemicolon L opt p =
     (case expect L opt tokSemicolon p of Inl e \<Rightarrow> Inl e | Inr (tok, p') \<Rightarrow> Inr p')"

definition matchKey :: "'f golib \<Rightarrow> string \<Rightarrow> string \<Rightarrow> bool \<Rightarrow> bool" where
  "matchKey L a b ci = (if ci then EqualFold L a b else a = b)"

definition equalFold :: "'f golib \<Rightarrow> string \<Rightarrow> string \<Rightarrow> ParseOptions \<Rightarrow> bool" where
  "equalFold L a b opt = (if \<not> DisableCaseInsensitive opt then EqualFold L a b else a = b)"

definition hasPrefixKey :: "string \<Rightarrow> string \<Rightarrow> bool \<Rightarrow> bool" where
  "hasPrefixKey s pre ci =
     (if \<not> ci then HasPrefix s pre
      else if length s < length pre then False
      else map asciiLower (take (length pre) s) = pre)"

definition isStageName :: "string \<Rightarrow> ParseOptions \<Rightarrow> bool" where
  "isStageName name opt = hasPrefixKey name ''stage'' (\<not> DisableCaseInsensitive opt)"

definition isTexGenName :: "string \<Rightarrow> ParseOptions \<Rightarrow> bool" where
  "isTexGenName name opt = hasPrefixKey name ''texgen'' (\<not> DisableCaseInsensitive opt)"

definition trimDots :: "string \<Rightarrow> string" where
  "trimDots s = rev (dropWhile (\<lambda>c. c = CHR ''.'') (rev s))"

text \<open>\<^verbatim>\<open>parseNumberToken\<close>: \<open>None\<close> when its second result is \<^verbatim>\<open>false\<close>.\<close>

definition parseNumberToken :: "'f golib \<Rightarrow> token \<Rightarrow> 'f option" where
  "parseNumberToken L tok =
     (if Type tok = tokNumber then ParseFloat L (Lit tok)
      else if Type tok = tokString \<or> Type tok = tokIdent then
        (let s = trimDots (TrimSpace (Lit tok)) in if s = [] then None else ParseFloat L s)
      else None)"

text \<open>The block that reads an optional \<^verbatim>\<open>: Base\<close> after a class name, and the one that
  reads an optional \<^verbatim>\<open>[]\<close> after a field name; the source repeats them in every
  function that needs them.\<close>

definition optBase :: "'f golib \<Rightarrow> ParseOptions \<Rightarrow> parser \<Rightarrow> error + (string \<times> parser)" where
  "optBase L opt p =
     (case ppeek L opt p of
        ((tok, err), p1) \<Rightarrow>
          if Type tok = tokColon then
            (case expect L opt tokIdent (snd (pnext L opt p1)) of
               Inl e \<Rightarrow> Inl e
             | Inr (btok, p2) \<Rightarrow> Inr (Lit btok, p2))
          else Inr ([], p1))"

definition optArray :: "'f golib \<Rightarrow> ParseOptions \<Rightarrow> parser \<Rightarrow> error + (bool \<times> parser)" where
  "optArray L opt p =
     (case ppeek L opt p of
        ((tok, err), p1) \<Rightarrow>
          if Type tok = tokLBracket then
            (case expect L opt tokRBracket (snd (pnext L opt p1)) of
               Inl e \<Rightarrow> Inl e
             | Inr (rtok, p2) \<Rightarrow> Inr (True, p2))
          else Inr (False, p1))"

definition arrayError :: "token \<Rightarrow> error" where
  "arrayError tok =
     parseError tok (''expected '' @ [CHR 0x27] @ '','' @ [CHR 0x27] @ '' or '' @ [CHR 0x27] @ ''}''
                     @ [CHR 0x27] @ '' in array'')"

fun parseValue :: "('f::zero) golib \<Rightarrow> ParseOptions \<Rightarrow> nat \<Rightarrow> parser \<Rightarrow> error + ('f valueT \<times> parser)"
  and parseArray :: "'f golib \<Rightarrow> ParseOptions \<Rightarrow> nat \<Rightarrow> parser \<Rightarrow> 'f valueT list
                      \<Rightarrow> error + ('f valueT list \<times> parser)" where
  "parseValue L opt 0 p = Inl OutOfFuel"
| "parseValue L opt (Suc n) p =
     (case pnext L opt p of
        ((tok, Some e), p1) \<Rightarrow> Inl e
      | ((tok, None), p1) \<Rightarrow>
          if Type tok = tokNumber then
            (case ParseFloat L (Lit tok) of
               None \<Rightarrow> Inl (parseError tok ''invalid number'')
             | Some f \<Rightarrow> Inr (mkValue [] [] valueNumber f, p1))
          else if Type tok = tokString then Inr (mkValue (Lit tok) [] valueString 0, p1)
          else if Type tok = tokIdent then Inr (mkValue (Lit tok) [] valueIdent 0, p1)
          else if Type tok = tokLBrace then
            (case parseArray L opt n p1 [] of
               Inl e \<Rightarrow> Inl e
             | Inr (arr, p2) \<Rightarrow> Inr (mkValue [] arr valueArray 0, p2))
          else Inl (parseError tok ''unexpected token''))"
| "parseArray L opt 0 p arr = Inl OutOfFuel"
| "parseArray L opt (Suc n) p arr =
     (case ppeek L opt p of
        ((tok, Some e), p1) \<Rightarrow> Inl e
      | ((tok, None), p1) \<Rightarrow>
          if Type tok = tokRBrace then Inr (arr, snd (pnext L opt p1))
          else
            (case parseValue L opt n p1 of
               Inl e \<Rightarrow> Inl e
             | Inr (v, p2) \<Rightarrow>
                 (case ppeek L opt p2 of
                    ((tok2, Some e), p3) \<Rightarrow> Inl e
                  | ((tok2, None), p3) \<Rightarrow>
                      if Type tok2 = tokComma then
                        parseArray L opt n (snd (pnext L opt p3)) (arr @ [v])
                      else if Type tok2 = tokRBrace then parseArray L opt n p3 (arr @ [v])
                      else Inl (arrayError tok2))))"

text \<open>\<^verbatim>\<open>parseNumberArrayWithRelax\<close>: its loop, then the function.\<close>

fun numberArrayLoop :: "('f::zero) golib \<Rightarrow> ParseOptions \<Rightarrow> bool \<Rightarrow> nat \<Rightarrow> parser \<Rightarrow> 'f list
                          \<Rightarrow> error + ('f list \<times> parser)" where
  "numberArrayLoop L opt relaxed 0 p arr = Inl OutOfFuel"
| "numberArrayLoop L opt relaxed (Suc n) p arr =
     (case ppeek L opt p of
        ((tok, Some e), p1) \<Rightarrow> Inl e
      | ((tok, None), p1) \<Rightarrow>
          if Type tok = tokRBrace then Inr (arr, snd (pnext L opt p1))
          else
            (case pnext L opt p1 of
               ((numTok, Some e), p2) \<Rightarrow> Inl e
             | ((numTok, None), p2) \<Rightarrow>
                 (case (case parseNumberToken L numTok of
                          Some f \<Rightarrow> Some f
                        | None \<Rightarrow> if \<not> relaxed then None else Some 0) of
                    None \<Rightarrow> Inl (parseError numTok ''expected number'')
                  | Some f \<Rightarrow>
                      (case ppeek L opt p2 of
                         ((tok2, Some e), p3) \<Rightarrow> Inl e
                       | ((tok2, None), p3) \<Rightarrow>
                           if Type tok2 = tokComma then
                             numberArrayLoop L opt relaxed n (snd (pnext L opt p3)) (arr @ [f])
                           else if Type tok2 = tokRBrace then
                             numberArrayLoop L opt relaxed n p3 (arr @ [f])
                           else Inl (arrayError tok2)))))"

definition parseNumberArrayWithRelax ::
  "('f::zero) golib \<Rightarrow> ParseOptions \<Rightarrow> bool \<Rightarrow> nat \<Rightarrow> parser \<Rightarrow> error + ('f list \<times> parser)" where
  "parseNumberArrayWithRelax L opt relaxed n p =
     (case expect L opt tokLBrace p of
        Inl e \<Rightarrow> Inl e
      | Inr (tok, p1) \<Rightarrow> numberArrayLoop L opt relaxed n p1 [])"

definition parseNumberArray ::
  "('f::zero) golib \<Rightarrow> ParseOptions \<Rightarrow> nat \<Rightarrow> parser \<Rightarrow> error + ('f list \<times> parser)" where
  "parseNumberArray L opt n p =
     parseNumberArrayWithRelax L opt (\<not> DisableRelaxedNumbers opt) n p"

definition parseNumberValue :: "'f golib \<Rightarrow> ParseOptions \<Rightarrow> parser \<Rightarrow> error + ('f \<times> parser)" where
  "parseNumberValue L opt p =
     (case expect L opt tokNumber p of
        Inl e \<Rightarrow> Inl e
      | Inr (tok, p1) \<Rightarrow>
          (case parseNumberToken L tok of
             Some f \<Rightarrow> Inr (f, p1)
           | None \<Rightarrow> Inl (parseError tok ''invalid number'')))"

definition parseStringValue :: "'f golib \<Rightarrow> ParseOptions \<Rightarrow> parser \<Rightarrow> error + (string \<times> parser)" where
  "parseStringValue L opt p =
     (case pnext L opt p of
        ((tok, Some e), p1) \<Rightarrow> Inl e
      | ((tok, None), p1) \<Rightarrow>
          if Type tok = tokString \<or> Type tok = tokIdent then Inr (Lit tok, p1)
          else Inl (parseError tok ''expected string''))"

definition parseStringOrNumberValue ::
  "'f golib \<Rightarrow> ParseOptions \<Rightarrow> bool \<Rightarrow> parser \<Rightarrow> error + (string \<times> parser)" where
  "parseStringOrNumberValue L opt relaxed p =
     (case pnext L opt p of
        ((tok, Some e), p1) \<Rightarrow> Inl e
      | ((tok, None), p1) \<Rightarrow>
          if Type tok = tokString \<or> Type tok = tokIdent then Inr (Lit tok, p1)
          else if Type tok = tokNumber then Inr (Lit tok, p1)
          else if relaxed then Inr (Lit tok, p1)
          else Inl (parseError tok ''expected string''))"

definition parseAssign :: "('f::zero) golib \<Rightarrow> ParseOptions \<Rightarrow> nat \<Rightarrow> parser \<Rightarrow> error + ('f node \<times> parser)" where
  "parseAssign L opt n p =
     (case expect L opt tokIdent p of
        Inl e \<Rightarrow> Inl e
      | Inr (nameTok, p1) \<Rightarrow>
     (case optArray L opt p1 of
        Inl e \<Rightarrow> Inl e
      | Inr (isArray, p2) \<Rightarrow>
     (case expect L opt tokEqual p2 of
        Inl e \<Rightarrow> Inl e
      | Inr (eqTok, p3) \<Rightarrow>
     (case parseValue L opt n p3 of
        Inl e \<Rightarrow> Inl e
      | Inr (val, p4) \<Rightarrow>
     (case expect L opt tokSemicolon p4 of
        Inl e \<Rightarrow> Inl e
      | Inr (semTok, p5) \<Rightarrow> Inr (assignNode (Lit nameTok) val isArray, p5))))))"

text \<open>\<^verbatim>\<open>parseNode\<close>, \<^verbatim>\<open>parseClass\<close> and the loop over the nodes of a class body, which
  \<^verbatim>\<open>parseClass\<close> and \<^verbatim>\<open>parseClassBody\<close> both have.\<close>

fun parseNode :: "('f::zero) golib \<Rightarrow> ParseOptions \<Rightarrow> nat \<Rightarrow> parser \<Rightarrow> error + ('f node \<times> parser)"
  and parseClass :: "'f golib \<Rightarrow> ParseOptions \<Rightarrow> nat \<Rightarrow> parser \<Rightarrow> error + ('f node \<times> parser)"
  and nodeLoop :: "'f golib \<Rightarrow> ParseOptions \<Rightarrow> nat \<Rightarrow> parser \<Rightarrow> 'f node list
                    \<Rightarrow> error + ('f node list \<times> parser)" where
  "parseNode L opt 0 p = Inl OutOfFuel"
| "parseNode L opt (Suc n) p =
     (case ppeek L opt p of
        ((tok, Some e), p1) \<Rightarrow> Inl e
      | ((tok, None), p1) \<Rightarrow>
          if Type tok = tokClass then parseClass L opt n p1 else parseAssign L opt n p1)"
| "parseClass L opt 0 p = Inl OutOfFuel"
| "parseClass L opt (Suc n) p =
     (case expect L opt tokClass p of
        Inl e \<Rightarrow> Inl e
      | Inr (classTok, p1) \<Rightarrow>
     (case expect L opt tokIdent p1 of
        Inl e \<Rightarrow> Inl e
      | Inr (nameTok, p2) \<Rightarrow>
     (case optBase L opt p2 of
        Inl e \<Rightarrow> Inl e
      | Inr (base, p3) \<Rightarrow>
     (case expect L opt tokLBrace p3 of
        Inl e \<Rightarrow> Inl e
      | Inr (braceTok, p4) \<Rightarrow>
     (case nodeLoop L opt n p4 [] of
        Inl e \<Rightarrow> Inl e
      | Inr (body, p5) \<Rightarrow>
     (case expect L opt tokSemicolon p5 of
        Inl e \<Rightarrow> Inl e
      | Inr (semTok, p6) \<Rightarrow> Inr (classNode (Lit nameTok) base body, p6)))))))"
| "nodeLoop L opt 0 p body = Inl OutOfFuel"
| "nodeLoop L opt (Suc n) p body =
     (case ppeek L opt p of
        ((tok, Some e), p1) \<Rightarrow> Inl e
      | ((tok, None), p1) \<Rightarrow>
          if Type tok = tokRBrace then Inr (body, snd (pnext L opt p1))
          else
            (case parseNode L opt n p1 of
               Inl e \<Rightarrow> Inl e
             | Inr (nd, p2) \<Rightarrow> nodeLoop L opt n p2 (body @ [nd])))"

definition parseClassBody ::
  "('f::zero) golib \<Rightarrow> ParseOptions \<Rightarrow> nat \<Rightarrow> string \<Rightarrow> string \<Rightarrow> parser \<Rightarrow> error + ('f node \<times> parser)" where
  "parseClassBody L opt n name base p =
     (case expect L opt tokLBrace p of
        Inl e \<Rightarrow> Inl e
      | Inr (braceTok, p1) \<Rightarrow>
     (case nodeLoop L opt n p1 [] of
        Inl e \<Rightarrow> Inl e
      | Inr (body, p2) \<Rightarrow>
     (case expect L opt tokSemicolon p2 of
        Inl e \<Rightarrow> Inl e
      | Inr (semTok, p3) \<Rightarrow> Inr (classNode name base body, p3))))"

text \<open>\<^verbatim>\<open>parseUVTransformBody\<close>: the loop over the assignments, then the function.\<close>

definition setUVField :: "'f golib \<Rightarrow> ParseOptions \<Rightarrow> string \<Rightarrow> 'f list \<Rightarrow> 'f UVTransform \<Rightarrow> 'f UVTransform" where
  "setUVField L opt name vals uv =
     (if matchKey L name ''aside'' (\<not> DisableCaseInsensitive opt) then uv\<lparr>Aside := vals\<rparr>
      else if matchKey L name ''up'' (\<not> DisableCaseInsensitive opt) then uv\<lparr>Up := vals\<rparr>
      else if matchKey L name ''dir'' (\<not> DisableCaseInsensitive opt) then uv\<lparr>Dir := vals\<rparr>
      else if matchKey L name ''pos'' (\<not> DisableCaseInsensitive opt) then uv\<lparr>Pos := vals\<rparr>
      else uv)"

fun uvLoop :: "('f::zero) golib \<Rightarrow> ParseOptions \<Rightarrow> nat \<Rightarrow> parser \<Rightarrow> 'f UVTransform
                 \<Rightarrow> error + ('f UVTransform \<times> parser)" where
  "uvLoop L opt 0 p uv = Inl OutOfFuel"
| "uvLoop L opt (Suc n) p uv =
     (case ppeek L opt p of
        ((tok, Some e), p1) \<Rightarrow> Inl e
      | ((tok, None), p1) \<Rightarrow>
          if Type tok = tokRBrace then Inr (uv, snd (pnext L opt p1))
          else
     (case expect L opt tokIdent p1 of
        Inl e \<Rightarrow> Inl e
      | Inr (nameTok, p2) \<Rightarrow>
     (case optArray L opt p2 of
        Inl e \<Rightarrow> Inl e
      | Inr (isArray, p3) \<Rightarrow>
     (case expect L opt tokEqual p3 of
        Inl e \<Rightarrow> Inl e
      | Inr (eqTok, p4) \<Rightarrow>
     (case parseNumberArray L opt n p4 of
        Inl e \<Rightarrow> Inl e
      | Inr (vals, p5) \<Rightarrow>
     (case expectSemicolon L opt p5 of
        Inl e \<Rightarrow> Inl e
      | Inr p6 \<Rightarrow> uvLoop L opt n p6 (setUVField L opt (Lit nameTok) vals uv)))))))"

definition parseUVTransformBody ::
  "('f::zero) golib \<Rightarrow> ParseOptions \<Rightarrow> nat \<Rightarrow> parser \<Rightarrow> error + ('f UVTransform \<times> parser)" where
  "parseUVTransformBody L opt n p =
     (case expect L opt tokLBrace p of
        Inl e \<Rightarrow> Inl e
      | Inr (braceTok, p1) \<Rightarrow>
     (case uvLoop L opt n p1 zeroUVTransform of
        Inl e \<Rightarrow> Inl e
      | Inr (uv, p2) \<Rightarrow>
     (case expectSemicolon L opt p2 of
        Inl e \<Rightarrow> Inl e
      | Inr p3 \<Rightarrow> Inr (uv, p3))))"

text \<open>The stage: its nested classes, its assignments, its body.\<close>

definition parseStageClass ::
  "('f::zero) golib \<Rightarrow> ParseOptions \<Rightarrow> nat \<Rightarrow> parser \<Rightarrow> 'f Stage \<Rightarrow> error + ('f Stage \<times> parser)" where
  "parseStageClass L opt n p st =
     (case expect L opt tokClass p of
        Inl e \<Rightarrow> Inl e
      | Inr (classTok, p1) \<Rightarrow>
     (case expect L opt tokIdent p1 of
        Inl e \<Rightarrow> Inl e
      | Inr (nameTok, p2) \<Rightarrow>
     (case optBase L opt p2 of
        Inl e \<Rightarrow> Inl e
      | Inr (base, p3) \<Rightarrow>
          if equalFold L (Lit nameTok) ''uvTransform'' opt \<and> base = [] then
            (case parseUVTransformBody L opt n p3 of
               Inl e \<Rightarrow> Inl e
             | Inr (uv, p4) \<Rightarrow> Inr (st\<lparr>Stage.UVTransform := Some uv\<rparr>, p4))
          else
            (case parseClassBody L opt n (Lit nameTok) base p3 of
               Inl e \<Rightarrow> Inl e
             | Inr (cn, p4) \<Rightarrow> Inr (st\<lparr>Stage.extras := Stage.extras st @ [cn]\<rparr>, p4)))))"

definition parseStageAssign ::
  "('f::zero) golib \<Rightarrow> ParseOptions \<Rightarrow> nat \<Rightarrow> parser \<Rightarrow> 'f Stage \<Rightarrow> error + ('f Stage \<times> parser)" where
  "parseStageAssign L opt n p st =
     (case expect L opt tokIdent p of
        Inl e \<Rightarrow> Inl e
      | Inr (nameTok, p1) \<Rightarrow>
     (case optArray L opt p1 of
        Inl e \<Rightarrow> Inl e
      | Inr (isArray, p2) \<Rightarrow>
     (case expect L opt tokEqual p2 of
        Inl e \<Rightarrow> Inl e
      | Inr (eqTok, p3) \<Rightarrow>
          if \<not> isArray \<and> matchKey L (Lit nameTok) ''texture'' (\<not> DisableCaseInsensitive opt) then
            (case parseStringValue L opt p3 of
               Inl e \<Rightarrow> Inl e
             | Inr (s, p4) \<Rightarrow>
                 (case expectSemicolon L opt p4 of
                    Inl e \<Rightarrow> Inl e
                  | Inr p5 \<Rightarrow> Inr (st\<lparr>Texture := ParseTextureRef L s\<rparr>, p5)))
          else if \<not> isArray \<and> matchKey L (Lit nameTok) ''uvsource'' (\<not> DisableCaseInsensitive opt) then
            (case parseStringValue L opt p3 of
               Inl e \<Rightarrow> Inl e
             | Inr (s, p4) \<Rightarrow>
                 (case expectSemicolon L opt p4 of
                    Inl e \<Rightarrow> Inl e
                  | Inr p5 \<Rightarrow> Inr (st\<lparr>Stage.UVSource := s\<rparr>, p5)))
          else if \<not> isArray \<and> matchKey L (Lit nameTok) ''texgen'' (\<not> DisableCaseInsensitive opt) then
            (case parseStringOrNumberValue L opt (\<not> DisableRelaxedNumbers opt) p3 of
               Inl e \<Rightarrow> Inl e
             | Inr (s, p4) \<Rightarrow>
                 (case expectSemicolon L opt p4 of
                    Inl e \<Rightarrow> Inl e
                  | Inr p5 \<Rightarrow> Inr (st\<lparr>Stage.TexGen := s\<rparr>, p5)))
          else
            (case parseValue L opt n p3 of
               Inl e \<Rightarrow> Inl e
             | Inr (val, p4) \<Rightarrow>
                 (case expectSemicolon L opt p4 of
                    Inl e \<Rightarrow> Inl e
                  | Inr p5 \<Rightarrow>
                      Inr (st\<lparr>Stage.extras := Stage.extras st @ [assignNode (Lit nameTok) val isArray]\<rparr>,
                           p5))))))"

fun stageLoop :: "('f::zero) golib \<Rightarrow> ParseOptions \<Rightarrow> nat \<Rightarrow> parser \<Rightarrow> 'f Stage
                    \<Rightarrow> error + ('f Stage \<times> parser)" where
  "stageLoop L opt 0 p st = Inl OutOfFuel"
| "stageLoop L opt (Suc n) p st =
     (case ppeek L opt p of
        ((tok, Some e), p1) \<Rightarrow> Inl e
      | ((tok, None), p1) \<Rightarrow>
          if Type tok = tokRBrace then Inr (st, snd (pnext L opt p1))
          else if Type tok = tokClass then
            (case parseStageClass L opt n p1 st of
               Inl e \<Rightarrow> Inl e
             | Inr (st', p2) \<Rightarrow> stageLoop L opt n p2 st')
          else
            (case parseStageAssign L opt n p1 st of
               Inl e \<Rightarrow> Inl e
             | Inr (st', p2) \<Rightarrow> stageLoop L opt n p2 st'))"

definition parseStageBody ::
  "('f::zero) golib \<Rightarrow> ParseOptions \<Rightarrow> nat \<Rightarrow> string \<Rightarrow> parser \<Rightarrow> error + ('f Stage \<times> parser)" where
  "parseStageBody L opt n name p =
     (case expect L opt tokLBrace p of
        Inl e \<Rightarrow> Inl e
      | Inr (braceTok, p1) \<Rightarrow>
     (case stageLoop L opt n p1 (zeroStage\<lparr>Stage.Name := name\<rparr>) of
        Inl e \<Rightarrow> Inl e
      | Inr (st, p2) \<Rightarrow>
     (case expect L opt tokSemicolon p2 of
        Inl e \<Rightarrow> Inl e
      | Inr (semTok, p3) \<Rightarrow> Inr (st, p3))))"

text \<open>The texture generator, in the same three parts.\<close>

definition parseTexGenClass ::
  "('f::zero) golib \<Rightarrow> ParseOptions \<Rightarrow> nat \<Rightarrow> parser \<Rightarrow> 'f TexGen \<Rightarrow> error + ('f TexGen \<times> parser)" where
  "parseTexGenClass L opt n p tg =
     (case expect L opt tokClass p of
        Inl e \<Rightarrow> Inl e
      | Inr (classTok, p1) \<Rightarrow>
     (case expect L opt tokIdent p1 of
        Inl e \<Rightarrow> Inl e
      | Inr (nameTok, p2) \<Rightarrow>
     (case optBase L opt p2 of
        Inl e \<Rightarrow> Inl e
      | Inr (base, p3) \<Rightarrow>
          if equalFold L (Lit nameTok) ''uvTransform'' opt \<and> base = [] then
            (case parseUVTransformBody L opt n p3 of
               Inl e \<Rightarrow> Inl e
             | Inr (uv, p4) \<Rightarrow> Inr (tg\<lparr>TexGen.UVTransform := Some uv\<rparr>, p4))
          else
            (case parseClassBody L opt n (Lit nameTok) base p3 of
               Inl e \<Rightarrow> Inl e
             | Inr (cn, p4) \<Rightarrow> Inr (tg\<lparr>TexGen.extras := TexGen.extras tg @ [cn]\<rparr>, p4)))))"

definition parseTexGenAssign ::
  "('f::zero) golib \<Rightarrow> ParseOptions \<Rightarrow> nat \<Rightarrow> parser \<Rightarrow> 'f TexGen \<Rightarrow> error + ('f TexGen \<times> parser)" where
  "parseTexGenAssign L opt n p tg =
     (case expect L opt tokIdent p of
        Inl e \<Rightarrow> Inl e
      | Inr (nameTok, p1) \<Rightarrow>
     (case optArray L opt p1 of
        Inl e \<Rightarrow> Inl e
      | Inr (isArray, p2) \<Rightarrow>
     (case expect L opt tokEqual p2 of
        Inl e \<Rightarrow> Inl e
      | Inr (eqTok, p3) \<Rightarrow>
          if \<not> isArray \<and> matchKey L (Lit nameTok) ''uvsource'' (\<not> DisableCaseInsensitive opt) then
            (case parseStringValue L opt p3 of
               Inl e \<Rightarrow> Inl e
             | Inr (s, p4) \<Rightarrow>
                 (case expectSemicolon L opt p4 of
                    Inl e \<Rightarrow> Inl e
                  | Inr p5 \<Rightarrow> Inr (tg\<lparr>TexGen.UVSource := s\<rparr>, p5)))
          else
            (case parseValue L opt n p3 of
               Inl e \<Rightarrow> Inl e
             | Inr (val, p4) \<Rightarrow>
                 (case expectSemicolon L opt p4 of
                    Inl e \<Rightarrow> Inl e
                  | Inr p5 \<Rightarrow>
                      Inr (tg\<lparr>TexGen.extras := TexGen.extras tg @ [assignNode (Lit nameTok) val isArray]\<rparr>,
                           p5))))))"

fun texGenLoop :: "('f::zero) golib \<Rightarrow> ParseOptions \<Rightarrow> nat \<Rightarrow> parser \<Rightarrow> 'f TexGen
                     \<Rightarrow> error + ('f TexGen \<times> parser)" where
  "texGenLoop L opt 0 p tg = Inl OutOfFuel"
| "texGenLoop L opt (Suc n) p tg =
     (case ppeek L opt p of
        ((tok, Some e), p1) \<Rightarrow> Inl e
      | ((tok, None), p1) \<Rightarrow>
          if Type tok = tokRBrace then Inr (tg, snd (pnext L opt p1))
          else if Type tok = tokClass then
            (case parseTexGenClass L opt n p1 tg of
               Inl e \<Rightarrow> Inl e
             | Inr (tg', p2) \<Rightarrow> texGenLoop L opt n p2 tg')
          else
            (case parseTexGenAssign L opt n p1 tg of
               Inl e \<Rightarrow> Inl e
             | Inr (tg', p2) \<Rightarrow> texGenLoop L opt n p2 tg'))"

definition parseTexGenBody ::
  "('f::zero) golib \<Rightarrow> ParseOptions \<Rightarrow> nat \<Rightarrow> string \<Rightarrow> string \<Rightarrow> parser \<Rightarrow> error + ('f TexGen \<times> parser)" where
  "parseTexGenBody L opt n name base p =
     (case expect L opt tokLBrace p of
        Inl e \<Rightarrow> Inl e
      | Inr (braceTok, p1) \<Rightarrow>
     (case texGenLoop L opt n p1 (zeroTexGen\<lparr>TexGen.Name := name, TexGen.Base := base\<rparr>) of
        Inl e \<Rightarrow> Inl e
      | Inr (tg, p2) \<Rightarrow>
     (case expect L opt tokSemicolon p2 of
        Inl e \<Rightarrow> Inl e
      | Inr (semTok, p3) \<Rightarrow> Inr (tg, p3))))"

text \<open>The top level: classes, assignments, and the loop of \<^verbatim>\<open>parseMaterial\<close>.\<close>

definition parseTopClass ::
  "('f::zero) golib \<Rightarrow> ParseOptions \<Rightarrow> nat \<Rightarrow> parser \<Rightarrow> 'f Material \<Rightarrow> error + ('f Material \<times> parser)" where
  "parseTopClass L opt n p m =
     (case expect L opt tokClass p of
        Inl e \<Rightarrow> Inl e
      | Inr (classTok, p1) \<Rightarrow>
     (case expect L opt tokIdent p1 of
        Inl e \<Rightarrow> Inl e
      | Inr (nameTok, p2) \<Rightarrow>
     (case optBase L opt p2 of
        Inl e \<Rightarrow> Inl e
      | Inr (base, p3) \<Rightarrow>
          if isStageName (Lit nameTok) opt \<and> base = [] then
            (case parseStageBody L opt n (Lit nameTok) p3 of
               Inl e \<Rightarrow> Inl e
             | Inr (st, p4) \<Rightarrow> Inr (m\<lparr>Stages := Stages m @ [st]\<rparr>, p4))
          else if isTexGenName (Lit nameTok) opt then
            (case parseTexGenBody L opt n (Lit nameTok) base p3 of
               Inl e \<Rightarrow> Inl e
             | Inr (tg, p4) \<Rightarrow> Inr (m\<lparr>TexGens := TexGens m @ [tg]\<rparr>, p4))
          else
            (case parseClassBody L opt n (Lit nameTok) base p3 of
               Inl e \<Rightarrow> Inl e
             | Inr (cn, p4) \<Rightarrow> Inr (m\<lparr>Material.extras := Material.extras m @ [cn]\<rparr>, p4)))))"

definition isColorKey :: "'f golib \<Rightarrow> ParseOptions \<Rightarrow> string \<Rightarrow> bool" where
  "isColorKey L opt name =
     (matchKey L name ''ambient'' (\<not> DisableCaseInsensitive opt)
      \<or> matchKey L name ''diffuse'' (\<not> DisableCaseInsensitive opt)
      \<or> matchKey L name ''forceddiffuse'' (\<not> DisableCaseInsensitive opt)
      \<or> matchKey L name ''emmisive'' (\<not> DisableCaseInsensitive opt)
      \<or> matchKey L name ''specular'' (\<not> DisableCaseInsensitive opt))"

definition setColorField :: "'f golib \<Rightarrow> ParseOptions \<Rightarrow> string \<Rightarrow> 'f list \<Rightarrow> 'f Material \<Rightarrow> 'f Material" where
  "setColorField L opt name vals m =
     (if matchKey L name ''ambient'' (\<not> DisableCaseInsensitive opt) then m\<lparr>Ambient := vals\<rparr>
      else if matchKey L name ''diffuse'' (\<not> DisableCaseInsensitive opt) then m\<lparr>Diffuse := vals\<rparr>
      else if matchKey L name ''forceddiffuse'' (\<not> DisableCaseInsensitive opt) then m\<lparr>ForcedDiffuse := vals\<rparr>
      else if matchKey L name ''emmisive'' (\<not> DisableCaseInsensitive opt) then m\<lparr>Emmisive := vals\<rparr>
      else if matchKey L name ''specular'' (\<not> DisableCaseInsensitive opt) then m\<lparr>Specular := vals\<rparr>
      else m)"

definition parseTopAssign ::
  "('f::zero) golib \<Rightarrow> ParseOptions \<Rightarrow> nat \<Rightarrow> parser \<Rightarrow> 'f Material \<Rightarrow> error + ('f Material \<times> parser)" where
  "parseTopAssign L opt n p m =
     (case expect L opt tokIdent p of
        Inl e \<Rightarrow> Inl e
      | Inr (nameTok, p1) \<Rightarrow>
     (case optArray L opt p1 of
        Inl e \<Rightarrow> Inl e
      | Inr (isArray, p2) \<Rightarrow>
     (case expect L opt tokEqual p2 of
        Inl e \<Rightarrow> Inl e
      | Inr (eqTok, p3) \<Rightarrow>
          if isArray \<and> isColorKey L opt (Lit nameTok) then
            (case parseNumberArray L opt n p3 of
               Inl e \<Rightarrow> Inl e
             | Inr (vals, p4) \<Rightarrow>
                 (case expectSemicolon L opt p4 of
                    Inl e \<Rightarrow> Inl e
                  | Inr p5 \<Rightarrow> Inr (setColorField L opt (Lit nameTok) vals m, p5)))
          else if \<not> isArray \<and> matchKey L (Lit nameTok) ''specularpower'' (\<not> DisableCaseInsensitive opt) then
            (case parseNumberValue L opt p3 of
               Inl e \<Rightarrow> Inl e
             | Inr (num, p4) \<Rightarrow>
                 (case expectSemicolon L opt p4 of
                    Inl e \<Rightarrow> Inl e
                  | Inr p5 \<Rightarrow> Inr (m\<lparr>SpecularPower := Some num\<rparr>, p5)))
          else if \<not> isArray \<and> matchKey L (Lit nameTok) ''pixelshaderid'' (\<not> DisableCaseInsensitive opt) then
            (case parseStringValue L opt p3 of
               Inl e \<Rightarrow> Inl e
             | Inr (s, p4) \<Rightarrow>
                 (case expectSemicolon L opt p4 of
                    Inl e \<Rightarrow> Inl e
                  | Inr p5 \<Rightarrow> Inr (m\<lparr>PixelShaderID := s\<rparr>, p5)))
          else if \<not> isArray \<and> matchKey L (Lit nameTok) ''vertexshaderid'' (\<not> DisableCaseInsensitive opt) then
            (case parseStringValue L opt p3 of
               Inl e \<Rightarrow> Inl e
             | Inr (s, p4) \<Rightarrow>
                 (case expectSemicolon L opt p4 of
                    Inl e \<Rightarrow> Inl e
                  | Inr p5 \<Rightarrow> Inr (m\<lparr>VertexShaderID := s\<rparr>, p5)))
          else
            (case parseValue L opt n p3 of
               Inl e \<Rightarrow> Inl e
             | Inr (val, p4) \<Rightarrow>
                 (case expectSemicolon L opt p4 of
                    Inl e \<Rightarrow> Inl e
                  | Inr p5 \<Rightarrow>
                      Inr (m\<lparr>Material.extras := Material.extras m @ [assignNode (Lit nameTok) val isArray]\<rparr>,
                           p5))))))"

fun parseMaterial :: "('f::zero) golib \<Rightarrow> ParseOptions \<Rightarrow> nat \<Rightarrow> parser \<Rightarrow> 'f Material
                        \<Rightarrow> error + 'f Material" where
  "parseMaterial L opt 0 p m = Inl OutOfFuel"
| "parseMaterial L opt (Suc n) p m =
     (case ppeek L opt p of
        ((tok, Some e), p1) \<Rightarrow> Inl e
      | ((tok, None), p1) \<Rightarrow>
          if Type tok = tokEOF then Inr m
          else if Type tok = tokClass then
            (case parseTopClass L opt n p1 m of
               Inl e \<Rightarrow> Inl e
             | Inr (m', p2) \<Rightarrow> parseMaterial L opt n p2 m')
          else
            (case parseTopAssign L opt n p1 m of
               Inl e \<Rightarrow> Inl e
             | Inr (m', p2) \<Rightarrow> parseMaterial L opt n p2 m'))"

text \<open>\<^verbatim>\<open>isBinaryRVMAT\<close>: \<^verbatim>\<open>Peek(4096)\<close> gives the first 4096 bytes, or all of them with an
  error when there are fewer.\<close>

definition isBinaryRVMAT :: "string \<Rightarrow> bool" where
  "isBinaryRVMAT data =
     (let peek = take 4096 data
      in if length data < 4096 \<and> length peek = 0 then False
         else list_ex (\<lambda>b. byte b = 0) peek)"

text \<open>The fuel \<^verbatim>\<open>Decode\<close> starts the parser with: no call chain of the parser is longer
  than twice the number of bytes of the input plus a constant.\<close>

definition parseFuel :: "string \<Rightarrow> nat" where
  "parseFuel data = Suc (Suc (Suc (Suc (Suc (Suc (length data + length data))))))"

definition Decode :: "('f::zero) golib \<Rightarrow> string \<Rightarrow> ParseOptions option \<Rightarrow> error + 'f Material" where
  "Decode L data opt =
     (let popt = normalizeParseOptions opt
      in if isBinaryRVMAT data then Inl ErrBinaryRVMAT
         else parseMaterial L popt (parseFuel data) (newParser data) zeroMaterial)"

definition Parse :: "('f::zero) golib \<Rightarrow> string \<Rightarrow> ParseOptions option \<Rightarrow> error + 'f Material" where
  "Parse L data opt = Decode L data opt"

section \<open>Validation\<close>

datatype IssueLevel = IssueError | IssueWarning

record Issue =
  Level :: IssueLevel
  Code :: string
  Message :: string
  Path :: string

text \<open>The allowlists of \<^verbatim>\<open>validate_lists.go\<close>, which is not among the sources: the
  validator only asks whether a name is a key of the map.\<close>

record tables =
  knownPixelShaderID :: "string set"
  knownVertexShaderID :: "string set"
  knownStageNames :: "string set"
  knownProceduralFns :: "string set"
  knownTextureTags :: "string set"

definition warning :: "string \<Rightarrow> string \<Rightarrow> Issue" where
  "warning msg path = \<lparr>Level = IssueWarning, Code = [], Message = msg, Path = path\<rparr>"

definition validateColor :: "string \<Rightarrow> 'f list \<Rightarrow> Issue list" where
  "validateColor name vals =
     (if length vals = 0 then []
      else if length vals \<noteq> 4 then
        [\<lparr>Level = IssueError, Code = [], Message = ''color must have 4 components'', Path = name\<rparr>]
      else [])"

definition defaultTextureExts :: "string list" where
  "defaultTextureExts = [''.paa'', ''.pax'', ''.tga'']"

definition hasAllowedExt :: "'f golib \<Rightarrow> string \<Rightarrow> bool" where
  "hasAllowedExt L path =
     list_ex (\<lambda>e. ToLower L (filepath_Ext L path) = ToLower L e) defaultTextureExts"

definition normalizePathForMatch :: "'f golib \<Rightarrow> string \<Rightarrow> string" where
  "normalizePathForMatch L p = ToLower L (ReplaceAllByte (TrimSpace p) (CHR ''/'') (CHR 0x5C))"

fun excludeLoop :: "'f golib \<Rightarrow> string \<Rightarrow> string list \<Rightarrow> bool" where
  "excludeLoop L nrm [] = False"
| "excludeLoop L nrm (p # ps) =
     (if p = [] then excludeLoop L nrm ps
      else (let pp = normalizePathForMatch L p
            in if HasSuffix pp ''*'' then
                 (if HasPrefix nrm (TrimSuffix pp ''*'') then True else excludeLoop L nrm ps)
               else if nrm = pp then True
               else excludeLoop L nrm ps))"

definition shouldExcludePath :: "'f golib \<Rightarrow> string \<Rightarrow> string list \<Rightarrow> bool" where
  "shouldExcludePath L path patterns =
     (if length patterns = 0 then False
      else excludeLoop L (normalizePathForMatch L path) patterns)"

text \<open>The body of the loop over the stages that checks the texture files.\<close>

definition textureFileIssues :: "'f golib \<Rightarrow> ValidateOptions \<Rightarrow> 'f Stage \<Rightarrow> Issue list" where
  "textureFileIssues L vopt st =
     (let tex = Texture st
      in if Raw tex = [] \<or> IsProcedural tex then []
         else
           (if \<not> DisableExtensionsCheck vopt \<and> \<not> hasAllowedExt L (Raw tex)
            then [warning ''unexpected texture extension'' (Raw tex)] else [])
           @ (if Contains (Raw tex) ''..''
              then [warning (''texture path contains '' @ [CHR 0x27] @ ''..'' @ [CHR 0x27]) (Raw tex)]
              else [])
           @ (if \<not> DisableFileCheck vopt then
                (if shouldExcludePath L (Raw tex) (ExcludePaths vopt) then []
                 else (let p = ResolvePath L (GameRoot vopt) (Raw tex)
                       in if p \<noteq> [] \<and> \<not> os_Stat L p then
                            [\<lparr>Level = IssueWarning, Code = ''missing_resource'',
                              Message = ''texture file not found'', Path = p\<rparr>]
                          else []))
              else []))"

text \<open>The body of the loop over the stages that checks the stage name and the UV
  wiring; each \<^verbatim>\<open>continue\<close> ends the issues of the stage.\<close>

definition stageIssues :: "tables \<Rightarrow> ValidateOptions \<Rightarrow> 'f Stage \<Rightarrow> Issue list" where
  "stageIssues T vopt st =
     (if \<not> DisableShaderNameCheck vopt \<and> Stage.Name st \<notin> knownStageNames T
      then [warning ''unknown Stage name'' (Stage.Name st)] else [])
     @ (if Stage.Name st = ''StageTI'' \<or> Stage.Name st = ''Stage0'' then []
        else if Stage.UVSource st = ''none'' \<or> Stage.UVSource st = ''WorldPos'' then []
        else if Stage.TexGen st \<noteq> [] then []
        else if Stage.UVSource st = [] \<and> Stage.UVTransform st = None then
          [warning ''stage without texGen missing uvSource'' (Stage.Name st),
           warning ''stage without texGen missing uvTransform'' (Stage.Name st)]
        else if Stage.UVTransform st = None then
          [warning ''stage without texGen missing uvTransform'' (Stage.Name st)]
        else [])"

text \<open>The loop over the stages that reports a repeated name; \<open>seen\<close> is the map of the
  names met so far.\<close>

fun duplicateIssues :: "string set \<Rightarrow> 'f Stage list \<Rightarrow> Issue list" where
  "duplicateIssues seen [] = []"
| "duplicateIssues seen (st # sts) =
     (if Stage.Name st = [] then duplicateIssues seen sts
      else if Stage.Name st \<in> seen then
        \<lparr>Level = IssueError, Code = [], Message = ''duplicate Stage name'', Path = Stage.Name st\<rparr>
        # duplicateIssues seen sts
      else duplicateIssues (insert (Stage.Name st) seen) sts)"

definition Validate :: "'f golib \<Rightarrow> tables \<Rightarrow> 'f Material \<Rightarrow> ValidateOptions option \<Rightarrow> Issue list" where
  "Validate L T m opt =
     (let vopt = normalizeValidateOptions opt
      in (if 0 < length (Stages m) then
            (if PixelShaderID m = [] then [warning ''PixelShaderID missing'' []] else [])
            @ (if VertexShaderID m = [] then [warning ''VertexShaderID missing'' []] else [])
          else [])
         @ (if \<not> DisableShaderNameCheck vopt then
              (if PixelShaderID m \<noteq> [] \<and> PixelShaderID m \<notin> knownPixelShaderID T
               then [warning ''unknown PixelShaderID'' (PixelShaderID m)] else [])
              @ (if VertexShaderID m \<noteq> [] \<and> VertexShaderID m \<notin> knownVertexShaderID T
                 then [warning ''unknown VertexShaderID'' (VertexShaderID m)] else [])
            else [])
         @ validateColor ''ambient'' (Ambient m)
         @ validateColor ''diffuse'' (Diffuse m)
         @ validateColor ''forcedDiffuse'' (ForcedDiffuse m)
         @ validateColor ''emmisive'' (Emmisive m)
         @ validateColor ''specular'' (Specular m)
         @ (if \<not> DisableFileCheck vopt \<or> \<not> DisableExtensionsCheck vopt
            then concat (map (textureFileIssues L vopt) (Stages m)) else [])
         @ concat (map (stageIssues T vopt) (Stages m))
         @ duplicateIssues {} (Stages m))"

definition proceduralArgsOK :: "string \<Rightarrow> string list \<Rightarrow> bool" where
  "proceduralArgsOK fn args =
     (if fn = ''color'' then length args = 4 \<or> length args = 5
      else if fn = ''fresnel'' then length args = 2
      else if fn = ''fresnelglass'' then length args = 0 \<or> length args = 1 \<or> length args = 2
      else if fn = ''irradiance'' then length args = 1
      else True)"

definition validateTexture :: "'f golib \<Rightarrow> tables \<Rightarrow> 'f TextureRef \<Rightarrow> TextureValidateOptions \<Rightarrow> Issue list" where
  "validateTexture L T t opt =
     (if Raw t = [] then []
      else if IsPath t then []
      else (case (if ParsedOK t then Procedural t else None) of
        None \<Rightarrow>
          (if \<not> DisableProceduralFnCheck opt \<or> \<not> DisableProceduralArgsCheck opt
              \<or> \<not> DisableTextureTagCheck opt
           then [warning ''procedural texture parse failed'' (Raw t)] else [])
      | Some pt \<Rightarrow>
          (let fn = ToLower L (Func pt)
           in (if \<not> DisableProceduralFnCheck opt \<and> fn \<notin> knownProceduralFns T
               then [warning ''unknown procedural function'' (Func pt)] else [])
              @ (if \<not> DisableProceduralArgsCheck opt \<and> \<not> proceduralArgsOK fn (Args pt)
                 then [warning ''unexpected procedural argument count'' (Func pt)] else [])
              @ (if \<not> DisableTextureTagCheck opt \<and> fn = ''color'' then
                   (let tag = (case Color pt of
                                 Some c \<Rightarrow> Tag c
                               | None \<Rightarrow> (if length (Args pt) = 5 then Args pt ! 4 else []))
                    in if tag \<noteq> [] \<and> ToLower L tag \<notin> knownTextureTags T
                       then [warning ''unknown texture tag'' tag] else [])
                 else []))))"

definition withStageContext :: "Issue \<Rightarrow> string \<Rightarrow> Issue" where
  "withStageContext issue stage =
     (if stage = [] then issue
      else if Path issue = [] then issue\<lparr>Path := stage\<rparr>
      else issue\<lparr>Path := stage @ '': '' @ Path issue\<rparr>)"

definition ValidateWithTextureOptions ::
  "'f golib \<Rightarrow> tables \<Rightarrow> 'f Material \<Rightarrow> ValidateOptions option \<Rightarrow> TextureValidateOptions option
     \<Rightarrow> Issue list" where
  "ValidateWithTextureOptions L T m opt texOpt =
     (case texOpt of
        None \<Rightarrow> Validate L T m opt
      | Some topt \<Rightarrow>
          Validate L T m opt
          @ concat (map (\<lambda>st. map (\<lambda>i. withStageContext i (Stage.Name st))
                                 (validateTexture L T (Texture st) topt)) (Stages m)))"

section \<open>A reference instance of the library record\<close>

text \<open>An instance for evaluating the functions on concrete inputs: floats are real
  numbers, \<^verbatim>\<open>ParseFloat\<close> reads a plain decimal numeral (sign, digits, fraction) exactly
  and \<^verbatim>\<open>FormatFloat\<close> writes one; no rune outside ASCII is a letter or a digit; paths
  are those of a system with \<^verbatim>\<open>/\<close> as separator and no file exists.\<close>

definition isDecimal :: "string \<Rightarrow> string \<Rightarrow> bool" where
  "isDecimal ip fp = ((ip \<noteq> [] \<or> fp \<noteq> []) \<and> list_all isDigitByte ip \<and> list_all isDigitByte fp)"

definition parseDecimal :: "string \<Rightarrow> real option" where
  "parseDecimal s =
     (let neg = (case s of c # _ \<Rightarrow> c = CHR ''-'' | [] \<Rightarrow> False);
          body = (case s of c # cs \<Rightarrow> if c = CHR ''-'' \<or> c = CHR ''+'' then cs else s | [] \<Rightarrow> []);
          sgn = (if neg then - 1 else 1)
      in (case SplitByte body (CHR ''.'') of
            [ip] \<Rightarrow> if isDecimal ip [] then Some (sgn * of_int (digitsValue ip)) else None
          | [ip, fp] \<Rightarrow>
              if isDecimal ip fp
              then Some (sgn * (of_int (digitsValue ip) + of_int (digitsValue fp) / 10 ^ length fp))
              else None
          | _ \<Rightarrow> None))"

definition digitChar :: "nat \<Rightarrow> char" where
  "digitChar d = ''0123456789'' ! (d mod 10)"

function natDigits :: "nat \<Rightarrow> string" where
  "natDigits n = (if n < 10 then [digitChar n] else natDigits (n div 10) @ [digitChar n])"
  by pat_completeness auto
termination
  by (relation "measure (\<lambda>n. n)") auto

function fracDigits :: "nat \<Rightarrow> real \<Rightarrow> string" where
  "fracDigits k f =
     (if k = 0 \<or> f = 0 then []
      else digitChar (nat \<lfloor>f * 10\<rfloor>) # fracDigits (k - 1) (f * 10 - of_int \<lfloor>f * 10\<rfloor>))"
  by pat_completeness auto
termination
  by (relation "measure (\<lambda>(k, f). k)") auto

declare natDigits.simps [simp del] fracDigits.simps [simp del]

definition formatDecimal :: "real \<Rightarrow> string" where
  "formatDecimal x =
     (let a = \<bar>x\<bar>; n = nat \<lfloor>a\<rfloor>; f = a - of_int \<lfloor>a\<rfloor>
      in (if x < 0 then ''-'' else [])
         @ natDigits n
         @ (if f = 0 then [] else ''.'' @ fracDigits 40 f))"

definition posixExt :: "string \<Rightarrow> string" where
  "posixExt p =
     (let base = (case LastIndexByte p (CHR ''/'') of None \<Rightarrow> p | Some i \<Rightarrow> drop (Suc i) p)
      in (case LastIndexByte base (CHR ''.'') of None \<Rightarrow> [] | Some i \<Rightarrow> drop i base))"

definition golib0 :: "real golib" where
  "golib0 =
     \<lparr>ParseFloat = parseDecimal, FormatFloat = formatDecimal,
      IsLetterU = (\<lambda>r. False), IsDigitU = (\<lambda>r. False),
      ToLowerU = (\<lambda>s. s), EqualFoldU = (\<lambda>s t. s = t),
      filepath_Ext = posixExt, filepath_FromSlash = (\<lambda>p. p),
      filepath_IsAbs = (\<lambda>p. HasPrefix p ''/''), filepath_Clean = (\<lambda>p. p),
      filepath_Join = (\<lambda>a b. a @ ''/'' @ b), os_Stat = (\<lambda>p. False)\<rparr>"

text \<open>Sample allowlists, for the same purpose.\<close>

definition tables0 :: tables where
  "tables0 =
     \<lparr>knownPixelShaderID = {''Super'', ''Multi'', ''Normal''},
      knownVertexShaderID = {''Super'', ''Multi'', ''Basic''},
      knownStageNames = {''Stage0'', ''Stage1'', ''Stage2'', ''Stage3'', ''Stage4'', ''Stage5'',
                         ''StageTI''},
      knownProceduralFns = {''color'', ''fresnel'', ''fresnelglass'', ''irradiance''},
      knownTextureTags = {''co'', ''nohq'', ''smdi'', ''as''}\<rparr>"

section \<open>Properties\<close>

subsection \<open>Validation: the UV wiring of a stage\<close>

definition uvSourceWarning :: "string \<Rightarrow> Issue" where
  "uvSourceWarning name = warning ''stage without texGen missing uvSource'' name"
definition uvTransformWarning :: "string \<Rightarrow> Issue" where
  "uvTransformWarning name = warning ''stage without texGen missing uvTransform'' name"

definition stageC3 :: "real Stage" where
  "stageC3 = zeroStage\<lparr>Stage.Name := ''Stage1'', Stage.UVTransform := Some zeroUVTransform\<rparr>"
definition materialC3 :: "real Material" where
  "materialC3 = zeroMaterial\<lparr>PixelShaderID := ''Super'', VertexShaderID := ''Super'', Stages := [stageC3]\<rparr>"

lemmas validate_defs = Validate_def normalizeValidateOptions_def validateColor_def textureFileIssues_def
  stageIssues_def warning_def zeroMaterial_def zeroStage_def zeroTextureRef_def zeroUVTransform_def
  tables0_def uvSourceWarning_def uvTransformWarning_def IsProcedural_def TextureKindProcedural_def

lemma stageIssues_subset:
  "st \<in> set (Stages m) \<Longrightarrow> set (stageIssues T (normalizeValidateOptions opt) st) \<subseteq> set (Validate L T m opt)"
  by (auto simp: Validate_def Let_def)


definition uvMessages :: "string set" where
  "uvMessages = {''stage without texGen missing uvSource'', ''stage without texGen missing uvTransform''}"

definition uvWired :: "'f Stage \<Rightarrow> bool" where
  "uvWired st = (Stage.Name st \<noteq> ''StageTI'' \<and> Stage.Name st \<noteq> ''Stage0''
     \<and> Stage.UVSource st \<noteq> ''none'' \<and> Stage.UVSource st \<noteq> ''WorldPos'' \<and> Stage.TexGen st = [])"

lemma filter_uv_validateColor: "filter (\<lambda>i. Message i \<in> uvMessages) (validateColor n vs) = []"
  by (simp add: validateColor_def uvMessages_def)

lemma filter_uv_textureFileIssues: "filter (\<lambda>i. Message i \<in> uvMessages) (textureFileIssues L vopt st) = []"
  by (simp add: textureFileIssues_def Let_def warning_def uvMessages_def)

lemma filter_uv_duplicateIssues: "filter (\<lambda>i. Message i \<in> uvMessages) (duplicateIssues seen sts) = []"
  by (induction sts arbitrary: seen) (simp_all add: uvMessages_def)

lemma filter_uv_stageIssues:
  "filter (\<lambda>i. Message i \<in> uvMessages) (stageIssues T vopt st) =
     (if Stage.Name st \<noteq> ''StageTI'' \<and> Stage.Name st \<noteq> ''Stage0''
          \<and> Stage.UVSource st \<noteq> ''none'' \<and> Stage.UVSource st \<noteq> ''WorldPos'' \<and> Stage.TexGen st = []
          \<and> Stage.UVTransform st = None
      then (if Stage.UVSource st = [] then [uvSourceWarning (Stage.Name st)] else [])
           @ [uvTransformWarning (Stage.Name st)]
      else [])"
  by (simp add: stageIssues_def warning_def uvMessages_def uvSourceWarning_def uvTransformWarning_def)

lemma filter_concat_map: "filter P (concat (map f xs)) = concat (map (\<lambda>x. filter P (f x)) xs)"
  by (induction xs) simp_all

lemma filter_if: "filter P (if c then xs else ys) = (if c then filter P xs else filter P ys)"
  by simp

lemma filter_uv_Validate:
  "filter (\<lambda>i. Message i \<in> uvMessages) (Validate L T m opt) =
     concat (map (\<lambda>st.
       if Stage.Name st \<noteq> ''StageTI'' \<and> Stage.Name st \<noteq> ''Stage0''
          \<and> Stage.UVSource st \<noteq> ''none'' \<and> Stage.UVSource st \<noteq> ''WorldPos'' \<and> Stage.TexGen st = []
          \<and> Stage.UVTransform st = None
       then (if Stage.UVSource st = [] then [uvSourceWarning (Stage.Name st)] else [])
            @ [uvTransformWarning (Stage.Name st)]
       else []) (Stages m))"
proof -
  have w: "filter (\<lambda>i. Message i \<in> uvMessages) [warning ''PixelShaderID missing'' []] = []"
    "filter (\<lambda>i. Message i \<in> uvMessages) [warning ''VertexShaderID missing'' []] = []"
    "filter (\<lambda>i. Message i \<in> uvMessages) [warning ''unknown PixelShaderID'' (PixelShaderID m)] = []"
    "filter (\<lambda>i. Message i \<in> uvMessages) [warning ''unknown VertexShaderID'' (VertexShaderID m)] = []"
    by (simp_all add: warning_def uvMessages_def)
  have c: "\<And>xs :: 'a Stage list. concat (map (\<lambda>x. ([] :: Issue list)) xs) = []"
    by simp
  show ?thesis
    by (simp only: Validate_def Let_def filter_append filter_concat_map filter_if
        filter_uv_validateColor filter_uv_textureFileIssues filter_uv_duplicateIssues filter_uv_stageIssues
        w c filter.simps(1) append_Nil append_Nil2 if_cancel)
qed


lemma uv_member:
  "i \<in> set (Validate L T m opt) \<Longrightarrow> Message i \<in> uvMessages \<Longrightarrow>
     \<exists>st \<in> set (Stages m). uvWired st \<and> Stage.UVTransform st = None
        \<and> (i = uvTransformWarning (Stage.Name st)
             \<or> Stage.UVSource st = [] \<and> i = uvSourceWarning (Stage.Name st))"
proof -
  assume "i \<in> set (Validate L T m opt)" and "Message i \<in> uvMessages"
  then have "i \<in> set (filter (\<lambda>i. Message i \<in> uvMessages) (Validate L T m opt))"
    by simp
  then show ?thesis
    unfolding filter_uv_Validate uvWired_def
    by (auto split: if_splits)
qed


text \<open>C3, as stated, fails: \<open>stageC3\<close> is named \<^verbatim>\<open>Stage1\<close>, has no texGen and no
  uvSource, and has a uvTransform; \<^verbatim>\<open>Validate\<close> reports nothing about it, so the
  missing uvSource gets no warning when the uvTransform is present.\<close>

theorem C3_counterexample:
  "Stage.Name stageC3 \<noteq> ''StageTI'' \<and> Stage.Name stageC3 \<noteq> ''Stage0''
   \<and> Stage.UVSource stageC3 \<noteq> ''none'' \<and> Stage.UVSource stageC3 \<noteq> ''WorldPos''
   \<and> Stage.TexGen stageC3 = [] \<and> Stage.UVSource stageC3 = []
   \<and> uvSourceWarning (Stage.Name stageC3) \<notin> set (Validate golib0 tables0 materialC3 None)
   \<and> Validate golib0 tables0 materialC3 None = []"
  by (simp add: validate_defs stageC3_def materialC3_def)


text \<open>C3, amended: call a stage \<^emph>\<open>UV-wired\<close> when it is named neither \<^verbatim>\<open>StageTI\<close> nor
  \<^verbatim>\<open>Stage0\<close>, its uvSource is neither \<^verbatim>\<open>none\<close> nor \<^verbatim>\<open>WorldPos\<close> and its texGen is
  empty. The UV warnings that \<^verbatim>\<open>Validate\<close> returns are, stage by stage and in this
  order, exactly: for each UV-wired stage without uvTransform, the missing-uvSource
  warning when the uvSource is empty too, then the missing-uvTransform warning; nothing for
  any other stage. So a UV-wired stage without uvTransform gets the missing-uvTransform
  warning, it gets the missing-uvSource warning as well when its uvSource is empty; every
  missing-uvSource warning returned names a UV-wired stage that lacks both, every
  missing-uvTransform warning names a UV-wired stage that lacks the uvTransform; and when
  every UV-wired stage has a uvTransform (whatever its uvSource), no UV warning is
  returned.\<close>

theorem C3_uv_wiring:
  "filter (\<lambda>i. Message i \<in> uvMessages) (Validate L T m opt) =
     concat (map (\<lambda>st. if uvWired st \<and> Stage.UVTransform st = None
                          then (if Stage.UVSource st = [] then [uvSourceWarning (Stage.Name st)] else [])
                               @ [uvTransformWarning (Stage.Name st)]
                          else [])
                 (Stages m))
   \<and> (\<forall>st \<in> set (Stages m). uvWired st \<longrightarrow>
         (Stage.UVTransform st = None \<longrightarrow>
            uvTransformWarning (Stage.Name st) \<in> set (Validate L T m opt))
         \<and> (Stage.UVSource st = [] \<and> Stage.UVTransform st = None \<longrightarrow>
              uvSourceWarning (Stage.Name st) \<in> set (Validate L T m opt)))
   \<and> (\<forall>i \<in> set (Validate L T m opt).
         Message i = ''stage without texGen missing uvSource'' \<longrightarrow>
           (\<exists>st \<in> set (Stages m). uvWired st \<and> Stage.UVSource st = [] \<and> Stage.UVTransform st = None
               \<and> i = uvSourceWarning (Stage.Name st)))
   \<and> (\<forall>i \<in> set (Validate L T m opt).
         Message i = ''stage without texGen missing uvTransform'' \<longrightarrow>
           (\<exists>st \<in> set (Stages m). uvWired st \<and> Stage.UVTransform st = None
               \<and> i = uvTransformWarning (Stage.Name st)))
   \<and> ((\<forall>st \<in> set (Stages m). uvWired st \<longrightarrow> Stage.UVTransform st \<noteq> None) \<longrightarrow>
         (\<forall>i \<in> set (Validate L T m opt). Message i \<notin> uvMessages))"
proof (intro conjI ballI impI)
  show "filter (\<lambda>i. Message i \<in> uvMessages) (Validate L T m opt) =
     concat (map (\<lambda>st. if uvWired st \<and> Stage.UVTransform st = None
                          then (if Stage.UVSource st = [] then [uvSourceWarning (Stage.Name st)] else [])
                               @ [uvTransformWarning (Stage.Name st)]
                          else [])
                 (Stages m))"
    unfolding filter_uv_Validate uvWired_def by (simp only: conj_assoc)
next
  fix st assume st: "st \<in> set (Stages m)" and w: "uvWired st" and t: "Stage.UVTransform st = None"
  from w t have "uvTransformWarning (Stage.Name st) \<in> set (stageIssues T (normalizeValidateOptions opt) st)"
    by (simp add: uvWired_def stageIssues_def uvTransformWarning_def)
  with stageIssues_subset [OF st]
  show "uvTransformWarning (Stage.Name st) \<in> set (Validate L T m opt)" by blast
next
  fix st assume st: "st \<in> set (Stages m)" and w: "uvWired st"
    and t: "Stage.UVSource st = [] \<and> Stage.UVTransform st = None"
  from w t have "uvSourceWarning (Stage.Name st) \<in> set (stageIssues T (normalizeValidateOptions opt) st)"
    by (simp add: uvWired_def stageIssues_def uvSourceWarning_def)
  with stageIssues_subset [OF st]
  show "uvSourceWarning (Stage.Name st) \<in> set (Validate L T m opt)" by blast
next
  fix i assume i: "i \<in> set (Validate L T m opt)"
    and msg: "Message i = ''stage without texGen missing uvSource''"
  from msg have "Message i \<in> uvMessages" by (simp add: uvMessages_def)
  from uv_member [OF i this] obtain st where st: "st \<in> set (Stages m)" "uvWired st"
      "Stage.UVTransform st = None"
      "i = uvTransformWarning (Stage.Name st) \<or> Stage.UVSource st = [] \<and> i = uvSourceWarning (Stage.Name st)"
    by blast
  from msg have "i \<noteq> uvTransformWarning (Stage.Name st)"
    by (auto simp: uvTransformWarning_def warning_def)
  with st show "\<exists>st \<in> set (Stages m). uvWired st \<and> Stage.UVSource st = [] \<and> Stage.UVTransform st = None
               \<and> i = uvSourceWarning (Stage.Name st)"
    by blast
next
  fix i assume i: "i \<in> set (Validate L T m opt)"
    and msg: "Message i = ''stage without texGen missing uvTransform''"
  from msg have "Message i \<in> uvMessages" by (simp add: uvMessages_def)
  from uv_member [OF i this] obtain st where st: "st \<in> set (Stages m)" "uvWired st"
      "Stage.UVTransform st = None"
      "i = uvTransformWarning (Stage.Name st) \<or> Stage.UVSource st = [] \<and> i = uvSourceWarning (Stage.Name st)"
    by blast
  from msg have "i \<noteq> uvSourceWarning (Stage.Name st)"
    by (auto simp: uvSourceWarning_def warning_def)
  with st show "\<exists>st \<in> set (Stages m). uvWired st \<and> Stage.UVTransform st = None
               \<and> i = uvTransformWarning (Stage.Name st)"
    by blast
next
  fix i assume a: "\<forall>st \<in> set (Stages m). uvWired st \<longrightarrow> Stage.UVTransform st \<noteq> None"
    and i: "i \<in> set (Validate L T m opt)"
  show "Message i \<notin> uvMessages"
  proof
    assume "Message i \<in> uvMessages"
    from uv_member [OF i this] a show False by blast
  qed
qed

definition stageC3w :: "real Stage" where
  "stageC3w = zeroStage\<lparr>Stage.Name := ''Stage1''\<rparr>"
definition materialC3w :: "real Material" where
  "materialC3w = zeroMaterial\<lparr>PixelShaderID := ''Super'', VertexShaderID := ''Super'',
     Stages := [stageC3w]\<rparr>"

theorem C3_uv_wiring_witness:
  "Stages materialC3w = [stageC3w] \<and> Stages materialC3 = [stageC3]
   \<and> uvWired stageC3w \<and> Stage.UVSource stageC3w = [] \<and> Stage.UVTransform stageC3w = None
   \<and> uvWired stageC3 \<and> Stage.UVSource stageC3 = [] \<and> Stage.UVTransform stageC3 \<noteq> None
   \<and> Validate golib0 tables0 materialC3w None = [uvSourceWarning ''Stage1'', uvTransformWarning ''Stage1'']
   \<and> Message (uvSourceWarning ''Stage1'') = ''stage without texGen missing uvSource''
   \<and> Message (uvTransformWarning ''Stage1'') = ''stage without texGen missing uvTransform''
   \<and> filter (\<lambda>i. Message i \<in> uvMessages) (Validate golib0 tables0 materialC3w None)
       = [uvSourceWarning ''Stage1'', uvTransformWarning ''Stage1'']
   \<and> filter (\<lambda>i. Message i \<in> uvMessages) (Validate golib0 tables0 materialC3 None) = []"
  using C3_uv_wiring [of golib0 tables0 materialC3w None] C3_uv_wiring [of golib0 tables0 materialC3 None]
  by (simp add: validate_defs stageC3w_def materialC3w_def stageC3_def materialC3_def uvWired_def uvMessages_def)


subsection \<open>Validation: which checks a switch turns off\<close>

definition materialC5 :: "real Material" where
  "materialC5 = zeroMaterial\<lparr>PixelShaderID := ''UnknownPS'', VertexShaderID := ''UnknownVS'',
     Stages := [zeroStage\<lparr>Stage.Name := ''Foo''\<rparr>]\<rparr>"


text \<open>C5, as stated, fails: on a material with the unknown stage name \<^verbatim>\<open>Foo\<close> and the
  unknown pixel shader \<^verbatim>\<open>UnknownPS\<close>, no options make \<^verbatim>\<open>Validate\<close> report one of the
  two and not the other.\<close>

theorem C5_counterexample:
  "\<not> (\<exists>opt. (warning ''unknown Stage name'' ''Foo'' \<notin> set (Validate golib0 tables0 materialC5 opt)
                \<and> warning ''unknown PixelShaderID'' ''UnknownPS'' \<in> set (Validate golib0 tables0 materialC5 opt))
             \<or> (warning ''unknown Stage name'' ''Foo'' \<in> set (Validate golib0 tables0 materialC5 opt)
                \<and> warning ''unknown PixelShaderID'' ''UnknownPS'' \<notin> set (Validate golib0 tables0 materialC5 opt)))"
proof -
  have "\<And>opt. (warning ''unknown Stage name'' ''Foo'' \<in> set (Validate golib0 tables0 materialC5 opt))
            = (warning ''unknown PixelShaderID'' ''UnknownPS'' \<in> set (Validate golib0 tables0 materialC5 opt))"
    by (simp add: validate_defs materialC5_def Let_def split: option.splits)
  then show ?thesis by blast
qed


definition nameMessages :: "string set" where
  "nameMessages = {''unknown Stage name'', ''unknown PixelShaderID'', ''unknown VertexShaderID''}"

lemma duplicateIssues_message:
  "\<forall>i \<in> set (duplicateIssues seen sts). Message i \<notin> nameMessages"
  by (induction sts arbitrary: seen) (auto simp: nameMessages_def split: if_splits)

lemma validateColor_message:
  "\<forall>i \<in> set (validateColor n vs). Message i \<notin> nameMessages"
  by (auto simp: validateColor_def nameMessages_def split: if_splits)

lemma textureFileIssues_message:
  "\<forall>i \<in> set (textureFileIssues L vopt st). Message i \<notin> nameMessages"
  by (auto simp: textureFileIssues_def Let_def warning_def nameMessages_def split: if_splits)

lemma stageIssues_message:
  "DisableShaderNameCheck vopt \<Longrightarrow> \<forall>i \<in> set (stageIssues T vopt st). Message i \<notin> nameMessages"
  by (auto simp: stageIssues_def warning_def nameMessages_def split: if_splits)

lemma ball_set_append: "(\<forall>i \<in> set (xs @ ys). P i) = ((\<forall>i \<in> set xs. P i) \<and> (\<forall>i \<in> set ys. P i))"
  by auto

lemma ball_set_concat_map:
  "(\<forall>i \<in> set (concat (map f xs)). P i) = (\<forall>x \<in> set xs. \<forall>i \<in> set (f x). P i)"
  by auto

lemma ball_set_if:
  "(\<forall>i \<in> set (if c then xs else ys). P i) = (if c then (\<forall>i \<in> set xs. P i) else (\<forall>i \<in> set ys. P i))"
  by simp


text \<open>C5, amended: the stage-name check and the shader-name check hang on the one
  switch \<^verbatim>\<open>DisableShaderNameCheck\<close>. When it is set, \<^verbatim>\<open>Validate\<close> returns no
  unknown-name issue of either kind; when it is not set, every stage whose name is not in
  the stage table and every non-empty shader identifier that is not in its table gets
  its warning.\<close>

theorem C5_shared_switch:
  "(DisableShaderNameCheck (normalizeValidateOptions opt) \<longrightarrow>
      (\<forall>i \<in> set (Validate L T m opt). Message i \<notin> nameMessages))
   \<and> (\<not> DisableShaderNameCheck (normalizeValidateOptions opt) \<longrightarrow>
        (\<forall>st \<in> set (Stages m). Stage.Name st \<notin> knownStageNames T \<longrightarrow>
            warning ''unknown Stage name'' (Stage.Name st) \<in> set (Validate L T m opt))
        \<and> (PixelShaderID m \<noteq> [] \<and> PixelShaderID m \<notin> knownPixelShaderID T \<longrightarrow>
            warning ''unknown PixelShaderID'' (PixelShaderID m) \<in> set (Validate L T m opt))
        \<and> (VertexShaderID m \<noteq> [] \<and> VertexShaderID m \<notin> knownVertexShaderID T \<longrightarrow>
            warning ''unknown VertexShaderID'' (VertexShaderID m) \<in> set (Validate L T m opt)))"
proof (intro conjI impI)
  assume d: "DisableShaderNameCheck (normalizeValidateOptions opt)"
  show "\<forall>i \<in> set (Validate L T m opt). Message i \<notin> nameMessages"
  proof -
    from d have s: "\<And>st. \<forall>i \<in> set (stageIssues T (normalizeValidateOptions opt) st). Message i \<notin> nameMessages"
      by (rule stageIssues_message)
    have w: "Message (warning ''PixelShaderID missing'' []) \<notin> nameMessages"
      "Message (warning ''VertexShaderID missing'' []) \<notin> nameMessages"
      by (simp_all add: warning_def nameMessages_def)
    show ?thesis
      apply (simp only: Validate_def Let_def ball_set_append ball_set_concat_map ball_set_if)
      apply (simp add: d s w duplicateIssues_message validateColor_message textureFileIssues_message)
      done
  qed
next
  assume n: "\<not> DisableShaderNameCheck (normalizeValidateOptions opt)"
  show "\<forall>st \<in> set (Stages m). Stage.Name st \<notin> knownStageNames T \<longrightarrow>
            warning ''unknown Stage name'' (Stage.Name st) \<in> set (Validate L T m opt)"
  proof (intro ballI impI)
    fix st
    assume st: "st \<in> set (Stages m)" and u: "Stage.Name st \<notin> knownStageNames T"
    from n u have "warning ''unknown Stage name'' (Stage.Name st)
        \<in> set (stageIssues T (normalizeValidateOptions opt) st)"
      by (simp add: stageIssues_def)
    with stageIssues_subset [OF st] show
      "warning ''unknown Stage name'' (Stage.Name st) \<in> set (Validate L T m opt)"
      by blast
  qed
next
  assume "\<not> DisableShaderNameCheck (normalizeValidateOptions opt)"
    "PixelShaderID m \<noteq> [] \<and> PixelShaderID m \<notin> knownPixelShaderID T"
  then show "warning ''unknown PixelShaderID'' (PixelShaderID m) \<in> set (Validate L T m opt)"
    by (simp add: Validate_def Let_def)
next
  assume "\<not> DisableShaderNameCheck (normalizeValidateOptions opt)"
    "VertexShaderID m \<noteq> [] \<and> VertexShaderID m \<notin> knownVertexShaderID T"
  then show "warning ''unknown VertexShaderID'' (VertexShaderID m) \<in> set (Validate L T m opt)"
    by (simp add: Validate_def Let_def)
qed

definition optC5 :: ValidateOptions where
  "optC5 = \<lparr>GameRoot = [], ExcludePaths = [], DisableFileCheck = True,
     DisableExtensionsCheck = False, DisableShaderNameCheck = True\<rparr>"


theorem C5_shared_switch_witness:
  "\<not> DisableShaderNameCheck (normalizeValidateOptions None)
   \<and> Validate golib0 tables0 materialC5 None =
       [warning ''unknown PixelShaderID'' ''UnknownPS'', warning ''unknown VertexShaderID'' ''UnknownVS'',
        warning ''unknown Stage name'' ''Foo'',
        warning ''stage without texGen missing uvSource'' ''Foo'',
        warning ''stage without texGen missing uvTransform'' ''Foo'']
   \<and> DisableShaderNameCheck (normalizeValidateOptions (Some optC5))
   \<and> Validate golib0 tables0 materialC5 (Some optC5) =
       [warning ''stage without texGen missing uvSource'' ''Foo'',
        warning ''stage without texGen missing uvTransform'' ''Foo'']"
  using C5_shared_switch [of None golib0 tables0 materialC5]
    C5_shared_switch [of "Some optC5" golib0 tables0 materialC5]
  by (simp add: validate_defs materialC5_def optC5_def)

subsection \<open>Facts about the string functions\<close>

lemmas dec_simps = parseDecimal_def isDecimal_def isDigitByte_def byte_def digitsValue_def
  formatDecimal_def digitChar_def natDigits.simps fracDigits.simps

lemmas string_defs = HasPrefix_def HasSuffix_def TrimSuffix_def TrimSpace_def trimLeftSpace.simps
  trimRightSpace.simps spacePrefixLen_def spaceSuffixLen_def spaceEncodings_def asciiSpace_def
  byte_def isASCII_def asciiLower_upper asciiLower_other isUpperASCII_def ToLower_def

lemmas texture_defs = ParseTextureRef_def NormalizeTextureRaw_def parseProcedural_def splitCSV_def
  parseFunc_def parseProceduralArgs_def parseProceduralColor_def parseFloatArg_def Atoi_def
  isDigitByte_def digitsValue_def TextureKindProcedural_def TextureKindPath_def

lemma IndexByte_append: "c \<notin> set a \<Longrightarrow> IndexByte (a @ c # b) c = Some (length a)"
  by (induction a) auto

lemma LastIndexByte_snoc: "LastIndexByte (a @ [c]) c = Some (length a)"
  by (induction a) auto

lemma SplitByte_none: "c \<notin> set a \<Longrightarrow> SplitByte a c = [a]"
  by (induction a) auto

lemma SplitByte_append: "c \<notin> set a \<Longrightarrow> SplitByte (a @ c # b) c = a # SplitByte b c"
  by (induction a) auto

lemma SplitByte_Join:
  "xs \<noteq> [] \<Longrightarrow> \<forall>a \<in> set xs. c \<notin> set a \<Longrightarrow> SplitByte (Join xs [c]) c = xs"
  by (induction xs "[c]" rule: Join.induct) (simp_all add: SplitByte_none SplitByte_append)

lemma spaceEncodings_bytes: "e \<in> set spaceEncodings \<Longrightarrow> e \<noteq> [] \<and> (\<forall>x \<in> set e. 128 \<le> byte x)"
  by (auto simp: spaceEncodings_def byte_def)

lemma trimLeftSpace_id: "spacePrefixLen s = 0 \<Longrightarrow> trimLeftSpace s = s"
  by (simp add: trimLeftSpace.simps)

lemma trimRightSpace_id: "spaceSuffixLen s = 0 \<Longrightarrow> trimRightSpace s = s"
  by (simp add: trimRightSpace.simps)

lemma spacePrefixLen_trimLeftSpace: "spacePrefixLen (trimLeftSpace s) = 0"
  by (induction s rule: trimLeftSpace.induct) (subst trimLeftSpace.simps, simp)

lemma spaceSuffixLen_trimRightSpace: "spaceSuffixLen (trimRightSpace s) = 0"
  by (induction s rule: trimRightSpace.induct) (subst trimRightSpace.simps, simp)

lemma spacePrefixLen_0_iff:
  "(spacePrefixLen s = 0) = (s = [] \<or> (\<not> asciiSpace (hd s) \<and> (\<forall>e \<in> set spaceEncodings. \<not> HasPrefix s e)))"
proof (cases s)
  case Nil
  then show ?thesis by (simp add: spacePrefixLen_def)
next
  case (Cons c cs)
  show ?thesis
  proof (cases "filter (HasPrefix s) spaceEncodings")
    case Nil
    then have "\<forall>e \<in> set spaceEncodings. \<not> HasPrefix s e" by (simp add: filter_empty_conv)
    with Nil Cons show ?thesis by (simp add: spacePrefixLen_def)
  next
    case c2: (Cons e es)
    then have "e \<in> set (filter (HasPrefix s) spaceEncodings)" by simp
    then have e: "e \<in> set spaceEncodings" "HasPrefix s e" by simp_all
    then have "e \<noteq> []" using spaceEncodings_bytes by blast
    with e c2 Cons show ?thesis by (auto simp: spacePrefixLen_def)
  qed
qed

lemma spaceSuffixLen_0_iff:
  "(spaceSuffixLen s = 0) = (s = [] \<or> (\<not> asciiSpace (last s) \<and> (\<forall>e \<in> set spaceEncodings. \<not> HasSuffix s e)))"
proof (cases "rev s")
  case Nil
  then show ?thesis by (simp add: spaceSuffixLen_def)
next
  case (Cons c cs)
  then have s: "s \<noteq> []" "last s = c" by (auto simp: last_rev [symmetric] simp del: last_rev)
  show ?thesis
  proof (cases "filter (HasSuffix s) spaceEncodings")
    case Nil
    then have "\<forall>e \<in> set spaceEncodings. \<not> HasSuffix s e" by (simp add: filter_empty_conv)
    with Nil Cons s show ?thesis by (simp add: spaceSuffixLen_def)
  next
    case c2: (Cons e es)
    then have "e \<in> set (filter (HasSuffix s) spaceEncodings)" by simp
    then have e: "e \<in> set spaceEncodings" "HasSuffix s e" by simp_all
    then have "e \<noteq> []" using spaceEncodings_bytes by blast
    with e c2 Cons s show ?thesis by (auto simp: spaceSuffixLen_def)
  qed
qed


lemma HasPrefix_take: "HasPrefix (take k s) e \<Longrightarrow> HasPrefix s e"
proof -
  assume a: "HasPrefix (take k s) e"
  then have t: "take (length e) (take k s) = e" by (simp add: HasPrefix_def)
  then have "length (take (length e) (take k s)) = length e" by simp
  then have "length e \<le> k" by simp
  then have "take (length e) (take k s) = take (length e) s" by (simp add: min_def)
  with t show ?thesis by (simp add: HasPrefix_def)
qed

lemma spacePrefixLen_take: "spacePrefixLen s = 0 \<Longrightarrow> spacePrefixLen (take k s) = 0"
proof (cases "take k s = []")
  case True
  have "spacePrefixLen [] = 0" by (simp add: spacePrefixLen_def)
  with True show ?thesis by (simp only:)
next
  case False
  assume z: "spacePrefixLen s = 0"
  from False have k: "0 < k" "s \<noteq> []" by auto
  then have "hd (take k s) = hd s" by (cases s; cases k) simp_all
  moreover from z k have a: "\<not> asciiSpace (hd s)" and n: "\<forall>e \<in> set spaceEncodings. \<not> HasPrefix s e"
    by (simp_all add: spacePrefixLen_0_iff)
  moreover from n have "\<forall>e \<in> set spaceEncodings. \<not> HasPrefix (take k s) e"
    using HasPrefix_take [of k s] by blast
  ultimately show ?thesis by (simp only: spacePrefixLen_0_iff) simp
qed

lemma spacePrefixLen_trimRightSpace: "spacePrefixLen s = 0 \<Longrightarrow> spacePrefixLen (trimRightSpace s) = 0"
proof (induction s rule: trimRightSpace.induct)
  case (1 s)
  show ?case
  proof (cases "spaceSuffixLen s = 0")
    case True
    with 1 show ?thesis by (simp add: trimRightSpace_id)
  next
    case False
    from 1(2) have "spacePrefixLen (take (length s - spaceSuffixLen s) s) = 0"
      by (rule spacePrefixLen_take)
    with 1(1) False have "spacePrefixLen (trimRightSpace (take (length s - spaceSuffixLen s) s)) = 0"
      by simp
    with False show ?thesis by (subst trimRightSpace.simps) simp
  qed
qed

lemma TrimSpace_id: "spacePrefixLen s = 0 \<Longrightarrow> spaceSuffixLen s = 0 \<Longrightarrow> TrimSpace s = s"
  by (simp add: TrimSpace_def trimLeftSpace_id trimRightSpace_id)

lemma TrimSpace_idem: "TrimSpace (TrimSpace s) = TrimSpace s"
proof -
  have "spacePrefixLen (trimLeftSpace s) = 0" by (rule spacePrefixLen_trimLeftSpace)
  then have "spacePrefixLen (TrimSpace s) = 0"
    unfolding TrimSpace_def by (rule spacePrefixLen_trimRightSpace)
  moreover have "spaceSuffixLen (TrimSpace s) = 0"
    unfolding TrimSpace_def by (rule spaceSuffixLen_trimRightSpace)
  ultimately show ?thesis by (rule TrimSpace_id)
qed

lemma TrimSpace_Nil: "TrimSpace [] = []"
  by (simp add: TrimSpace_id spacePrefixLen_def spaceSuffixLen_def)

text \<open>A byte that is ASCII and not white space.\<close>

definition solid :: "char \<Rightarrow> bool" where
  "solid c = (byte c < 128 \<and> \<not> asciiSpace c)"

lemma spacePrefixLen_solid: "s \<noteq> [] \<Longrightarrow> solid (hd s) \<Longrightarrow> spacePrefixLen s = 0"
proof -
  assume s: "s \<noteq> []" and h: "solid (hd s)"
  have "\<not> HasPrefix s e" if e: "e \<in> set spaceEncodings" for e
  proof
    assume "HasPrefix s e"
    then have t: "take (length e) s = e" by (simp add: HasPrefix_def)
    from e have ne: "e \<noteq> []" and b: "128 \<le> byte (hd e)" using spaceEncodings_bytes by auto
    from ne t s have "hd s = hd e" by (cases s; cases e) auto
    with b h show False by (simp add: solid_def)
  qed
  with s h show ?thesis unfolding spacePrefixLen_0_iff by (simp add: solid_def)
qed

lemma spaceSuffixLen_solid: "s \<noteq> [] \<Longrightarrow> solid (last s) \<Longrightarrow> spaceSuffixLen s = 0"
proof -
  assume s: "s \<noteq> []" and h: "solid (last s)"
  have "\<not> HasSuffix s e" if e: "e \<in> set spaceEncodings" for e
  proof
    assume "HasSuffix s e"
    then have t: "length e \<le> length s" "drop (length s - length e) s = e" by (simp_all add: HasSuffix_def)
    from e have ne: "e \<noteq> []" and b: "128 \<le> byte (last e)" using spaceEncodings_bytes by auto
    from ne t have "length s - length e < length s" by (cases e) auto
    then have "last (drop (length s - length e) s) = last s" by (rule last_drop)
    with t have "last s = last e" by simp
    with b h show False by (simp add: solid_def)
  qed
  with s h show ?thesis unfolding spaceSuffixLen_0_iff by (simp add: solid_def)
qed

lemma TrimSpace_solid: "s \<noteq> [] \<Longrightarrow> solid (hd s) \<Longrightarrow> solid (last s) \<Longrightarrow> TrimSpace s = s"
  by (simp add: TrimSpace_id spacePrefixLen_solid spaceSuffixLen_solid)

lemma spacePrefix_bytes:
  "x \<in> set (take (spacePrefixLen s) s) \<Longrightarrow> \<not> solid x"
proof (cases s)
  case Nil
  assume "x \<in> set (take (spacePrefixLen s) s)"
  with Nil show ?thesis by simp
next
  case (Cons c cs)
  assume x: "x \<in> set (take (spacePrefixLen s) s)"
  show ?thesis
  proof (cases "asciiSpace c")
    case True
    with Cons x show ?thesis by (simp add: spacePrefixLen_def solid_def)
  next
    case False
    show ?thesis
    proof (cases "filter (HasPrefix s) spaceEncodings")
      case Nil
      with False Cons x show ?thesis by (simp add: spacePrefixLen_def)
    next
      case c2: (Cons e es)
      then have "e \<in> set (filter (HasPrefix s) spaceEncodings)" by simp
      then have e: "e \<in> set spaceEncodings" "take (length e) s = e" by (simp_all add: HasPrefix_def)
      from False Cons c2 have "spacePrefixLen s = length e" by (simp add: spacePrefixLen_def)
      with x e have "x \<in> set e" by simp
      with spaceEncodings_bytes [OF e(1)] have "128 \<le> byte x" by blast
      then show ?thesis by (simp add: solid_def)
    qed
  qed
qed

lemma spaceSuffix_bytes:
  "x \<in> set (drop (length s - spaceSuffixLen s) s) \<Longrightarrow> \<not> solid x"
proof (cases "rev s")
  case Nil
  assume "x \<in> set (drop (length s - spaceSuffixLen s) s)"
  with Nil show ?thesis by simp
next
  case (Cons c cs)
  then have s: "s \<noteq> []" "s = rev cs @ [c]" by auto
  assume x: "x \<in> set (drop (length s - spaceSuffixLen s) s)"
  show ?thesis
  proof (cases "asciiSpace c")
    case True
    with Cons have "spaceSuffixLen s = 1" by (simp add: spaceSuffixLen_def)
    with x s(2) have "x = c" by simp
    with True show ?thesis by (simp add: solid_def)
  next
    case False
    show ?thesis
    proof (cases "filter (HasSuffix s) spaceEncodings")
      case Nil
      with False Cons x show ?thesis by (simp add: spaceSuffixLen_def)
    next
      case c2: (Cons e es)
      then have "e \<in> set (filter (HasSuffix s) spaceEncodings)" by simp
      then have e: "e \<in> set spaceEncodings" "drop (length s - length e) s = e" by (simp_all add: HasSuffix_def)
      from False Cons c2 have "spaceSuffixLen s = length e" by (simp add: spaceSuffixLen_def)
      with x e have "x \<in> set e" by simp
      with spaceEncodings_bytes [OF e(1)] have "128 \<le> byte x" by blast
      then show ?thesis by (simp add: solid_def)
    qed
  qed
qed

lemma trimLeftSpace_keeps: "x \<in> set s \<Longrightarrow> solid x \<Longrightarrow> x \<in> set (trimLeftSpace s)"
proof (induction s rule: trimLeftSpace.induct)
  case (1 s)
  show ?case
  proof (cases "spacePrefixLen s = 0")
    case True
    with 1 show ?thesis by (simp add: trimLeftSpace_id)
  next
    case False
    have "set s = set (take (spacePrefixLen s) s) \<union> set (drop (spacePrefixLen s) s)"
      by (simp only: set_append [symmetric] append_take_drop_id)
    with 1(2) have "x \<in> set (take (spacePrefixLen s) s) \<or> x \<in> set (drop (spacePrefixLen s) s)"
      by blast
    with 1(3) have "x \<in> set (drop (spacePrefixLen s) s)" using spacePrefix_bytes by blast
    with 1(1) [OF False] 1(3) have "x \<in> set (trimLeftSpace (drop (spacePrefixLen s) s))" by simp
    with False show ?thesis by (subst trimLeftSpace.simps) simp
  qed
qed

lemma trimRightSpace_keeps: "x \<in> set s \<Longrightarrow> solid x \<Longrightarrow> x \<in> set (trimRightSpace s)"
proof (induction s rule: trimRightSpace.induct)
  case (1 s)
  show ?case
  proof (cases "spaceSuffixLen s = 0")
    case True
    with 1 show ?thesis by (simp add: trimRightSpace_id)
  next
    case False
    have "set s = set (take (length s - spaceSuffixLen s) s) \<union> set (drop (length s - spaceSuffixLen s) s)"
      by (simp only: set_append [symmetric] append_take_drop_id)
    with 1(2) have "x \<in> set (take (length s - spaceSuffixLen s) s) \<or> x \<in> set (drop (length s - spaceSuffixLen s) s)"
      by blast
    with 1(3) have "x \<in> set (take (length s - spaceSuffixLen s) s)" using spaceSuffix_bytes by blast
    with 1(1) [OF False] 1(3) have "x \<in> set (trimRightSpace (take (length s - spaceSuffixLen s) s))" by simp
    with False show ?thesis by (subst trimRightSpace.simps) simp
  qed
qed

lemma TrimSpace_keeps: "x \<in> set s \<Longrightarrow> solid x \<Longrightarrow> TrimSpace s \<noteq> []"
proof -
  assume "x \<in> set s" and x: "solid x"
  then have "x \<in> set (trimLeftSpace s)" by (rule trimLeftSpace_keeps)
  then have "x \<in> set (trimRightSpace (trimLeftSpace s))" using x by (rule trimRightSpace_keeps)
  then show ?thesis unfolding TrimSpace_def by auto
qed

subsection \<open>Texture references: the colour payload\<close>

text \<open>The string \<^verbatim>\<open>#(fmt,ws,hs,ms)fn(a1,...,an)\<close>, as \<^verbatim>\<open>buildProceduralRaw\<close> writes it
  from the decimal numerals of the three numbers.\<close>

definition proceduralRaw :: "string \<Rightarrow> string \<Rightarrow> string \<Rightarrow> string \<Rightarrow> string \<Rightarrow> string list \<Rightarrow> string" where
  "proceduralRaw fmt ws hs ms fn as =
     ''#('' @ fmt @ '','' @ ws @ '','' @ hs @ '','' @ ms @ '')'' @ fn @ ''('' @ Join as '','' @ '')''"

definition splitArgs :: "string list \<Rightarrow> string list" where
  "splitArgs as = (if TrimSpace (Join as '','') = [] then [] else map TrimSpace as)"

lemma solid_chars: "solid (CHR '','')" "solid (CHR '')'')" "solid (CHR ''#'')"
  by (simp_all add: solid_def byte_def asciiSpace_def)

lemma HasSuffix_last: "HasSuffix s p \<Longrightarrow> p \<noteq> [] \<Longrightarrow> last s = last p"
proof -
  assume h: "HasSuffix s p" and p: "p \<noteq> []"
  then have l: "length p \<le> length s" and d: "drop (length s - length p) s = p"
    by (simp_all add: HasSuffix_def)
  from p l have "length s - length p < length s" by (cases p) auto
  then have "last (drop (length s - length p) s) = last s" by (rule last_drop)
  with d show ?thesis by simp
qed

lemma splitCSV_header:
  assumes "CHR '','' \<notin> set fmt" "CHR '','' \<notin> set ws" "CHR '','' \<notin> set hs" "CHR '','' \<notin> set ms"
  shows "splitCSV (fmt @ '','' @ ws @ '','' @ hs @ '','' @ ms) =
           [TrimSpace fmt, TrimSpace ws, TrimSpace hs, TrimSpace ms]"
proof -
  have "CHR '','' \<in> set (fmt @ '','' @ ws @ '','' @ hs @ '','' @ ms)" by simp
  then have n: "TrimSpace (fmt @ '','' @ ws @ '','' @ hs @ '','' @ ms) \<noteq> []"
    using solid_chars(1) by (rule TrimSpace_keeps)
  have "SplitByte (fmt @ CHR '','' # ws @ CHR '','' # hs @ CHR '','' # ms) (CHR '','') = [fmt, ws, hs, ms]"
    using assms by (simp add: SplitByte_append SplitByte_none)
  with n show ?thesis by (simp add: splitCSV_def)
qed

lemma splitCSV_Join:
  assumes "\<forall>a \<in> set as. CHR '','' \<notin> set a"
  shows "map TrimSpace (splitCSV (Join as '','')) = splitArgs as"
proof (cases "TrimSpace (Join as '','') = []")
  case True
  then show ?thesis by (simp add: splitCSV_def splitArgs_def)
next
  case False
  then have "Join as '','' \<noteq> []" using TrimSpace_Nil by auto
  then have "as \<noteq> []" by auto
  then have "SplitByte (Join as [CHR '','']) (CHR '','') = as" using assms by (rule SplitByte_Join)
  with False show ?thesis by (simp add: splitCSV_def splitArgs_def TrimSpace_idem)
qed

lemma parseFunc_shape:
  assumes "fn \<noteq> []" and "CHR ''('' \<notin> set fn" and "\<forall>a \<in> set as. CHR '','' \<notin> set a"
  shows "parseFunc (fn @ ''('' @ Join as '','' @ '')'') = Some (TrimSpace fn, splitArgs as)"
proof -
  have i: "IndexByte (fn @ CHR ''('' # (Join as '','' @ '')'')) (CHR ''('') = Some (length fn)"
    using assms(2) by (rule IndexByte_append)
  have "LastIndexByte ((fn @ ''('' @ Join as '','') @ [CHR '')'']) (CHR '')'')
          = Some (length (fn @ ''('' @ Join as '',''))"
    by (rule LastIndexByte_snoc)
  then have l: "LastIndexByte (fn @ CHR ''('' # (Join as '','' @ '')'')) (CHR '')'')
          = Some (length fn + 1 + length (Join as '',''))"
    by simp
  from assms(1) have "0 < length fn" by simp
  with i l splitCSV_Join [OF assms(3)] show ?thesis
    by (simp add: parseFunc_def)
qed

lemma parseProcedural_shape:
  assumes "\<forall>x \<in> set [fmt, ws, hs, ms]. CHR '','' \<notin> set x \<and> CHR '')'' \<notin> set x"
    and "fn \<noteq> []" and "solid (hd fn)" and "CHR ''('' \<notin> set fn"
    and "\<forall>a \<in> set as. CHR '','' \<notin> set a"
    and "Atoi (TrimSpace ws) = Some w" and "Atoi (TrimSpace hs) = Some h"
    and "Atoi (TrimSpace ms) = Some mip"
  shows "parseProcedural L (proceduralRaw fmt ws hs ms fn as) =
           Some (parseProceduralArgs L
             \<lparr>Color = None, Fresnel = None, Irradiance = None, Format = TrimSpace fmt,
              Func = TrimSpace fn, Args = splitArgs as, Width = w, Height = h, Mip = mip\<rparr>)"
proof -
  define head where "head = fmt @ '','' @ ws @ '','' @ hs @ '','' @ ms"
  define rest where "rest = fn @ ''('' @ Join as '','' @ '')''"
  have raw: "proceduralRaw fmt ws hs ms fn as = CHR ''#'' # CHR ''('' # head @ CHR '')'' # rest"
    by (simp add: proceduralRaw_def head_def rest_def)
  have p: "HasPrefix (CHR ''#'' # CHR ''('' # head @ CHR '')'' # rest) ''#(''"
    by (simp add: HasPrefix_def)
  from assms(1) have "CHR '')'' \<notin> set head" by (simp add: head_def)
  then have i: "IndexByte (head @ CHR '')'' # rest) (CHR '')'') = Some (length head)"
    by (rule IndexByte_append)
  from assms(1) have s: "splitCSV head = [TrimSpace fmt, TrimSpace ws, TrimSpace hs, TrimSpace ms]"
    unfolding head_def by (intro splitCSV_header) simp_all
  have r: "rest \<noteq> []" "hd rest = hd fn" "last rest = CHR '')''"
    using assms(2) by (simp_all add: rest_def)
  then have tr: "TrimSpace rest = rest"
    using assms(3) solid_chars(2) by (simp add: TrimSpace_solid)
  have f: "parseFunc rest = Some (TrimSpace fn, splitArgs as)"
    unfolding rest_def using assms(2,4,5) by (rule parseFunc_shape)
  show ?thesis
    unfolding raw parseProcedural_def
    by (simp add: p i s tr f r assms(6-8) TrimSpace_idem Let_def del: HasPrefix_def)
qed

lemma NormalizeTextureRaw_shape:
  assumes "\<not> HasPrefix (ToLower L (proceduralRaw fmt ws hs ms fn as)) ''texture=\"''"
  shows "NormalizeTextureRaw L (proceduralRaw fmt ws hs ms fn as) = proceduralRaw fmt ws hs ms fn as"
proof -
  define raw where "raw = proceduralRaw fmt ws hs ms fn as"
  have r: "raw \<noteq> []" "hd raw = CHR ''#''" "last raw = CHR '')''"
    by (simp_all add: raw_def proceduralRaw_def)
  then have t: "TrimSpace raw = raw" using solid_chars by (simp add: TrimSpace_solid)
  have "\<not> HasSuffix raw ''\";''"
  proof
    assume "HasSuffix raw ''\";''"
    then have "last raw = last ''\";''" by (rule HasSuffix_last) simp
    with r show False by simp
  qed
  then have s: "TrimSuffix raw ''\";'' = raw" by (simp add: TrimSuffix_def)
  from assms t s show ?thesis
    unfolding raw_def [symmetric] by (simp add: NormalizeTextureRaw_def Let_def)
qed

lemma ParseTextureRef_shape:
  assumes "\<forall>x \<in> set [fmt, ws, hs, ms]. CHR '','' \<notin> set x \<and> CHR '')'' \<notin> set x"
    and "fn \<noteq> []" and "solid (hd fn)" and "CHR ''('' \<notin> set fn"
    and "\<forall>a \<in> set as. CHR '','' \<notin> set a"
    and "Atoi (TrimSpace ws) = Some w" and "Atoi (TrimSpace hs) = Some h"
    and "Atoi (TrimSpace ms) = Some mip"
    and "\<not> HasPrefix (ToLower L (proceduralRaw fmt ws hs ms fn as)) ''texture=\"''"
  shows "ParseTextureRef L (proceduralRaw fmt ws hs ms fn as) =
           \<lparr>Procedural = Some (parseProceduralArgs L
             \<lparr>Color = None, Fresnel = None, Irradiance = None, Format = TrimSpace fmt,
              Func = TrimSpace fn, Args = splitArgs as, Width = w, Height = h, Mip = mip\<rparr>),
            Raw = proceduralRaw fmt ws hs ms fn as, Kind = TextureKindProcedural, ParsedOK = True\<rparr>"
proof -
  have p: "HasPrefix (proceduralRaw fmt ws hs ms fn as) ''#(''"
    by (simp add: HasPrefix_def proceduralRaw_def)
  show ?thesis
    unfolding ParseTextureRef_def
    by (simp only: NormalizeTextureRaw_shape [OF assms(9)] parseProcedural_shape [OF assms(1-8)] Let_def p)
       simp
qed

definition rawC8 :: string where
  "rawC8 = ''#(argb,8,8,3)color(0.5,0.5,0.5,1.0,co)''"

definition proceduralShape :: "string \<Rightarrow> string \<Rightarrow> string \<Rightarrow> string \<Rightarrow> string \<Rightarrow> string list \<Rightarrow> bool" where
  "proceduralShape fmt ws hs ms fn as =
     ((\<forall>x \<in> set [fmt, ws, hs, ms]. CHR '','' \<notin> set x \<and> CHR '')'' \<notin> set x)
      \<and> fn \<noteq> [] \<and> solid (hd fn) \<and> CHR ''('' \<notin> set fn
      \<and> (\<forall>a \<in> set as. CHR '','' \<notin> set a))"

lemma all_less4: "(\<forall>i<4. P (i::nat)) = (P 0 \<and> P 1 \<and> P 2 \<and> P 3)"
proof -
  have "\<And>i::nat. (i < 4) = (i = 0 \<or> i = 1 \<or> i = 2 \<or> i = 3)" by arith
  then show ?thesis by auto
qed

lemma splitArgs_trimmed: "x \<in> set (splitArgs as) \<Longrightarrow> TrimSpace x = x"
  by (auto simp: splitArgs_def TrimSpace_idem split: if_splits)

lemma parseFloatArg_trimmed:
  "TrimSpace x = x \<Longrightarrow> parseFloatArg L x = (if x = [] then None else ParseFloat L x)"
  by (simp add: parseFloatArg_def)

lemma parseProceduralColor_trimmed:
  assumes t: "\<forall>x \<in> set (Args pt). TrimSpace x = x"
  shows "parseProceduralColor L pt =
     (if (length (Args pt) = 4 \<or> length (Args pt) = 5)
          \<and> (\<forall>i<4. Args pt ! i \<noteq> [] \<and> ParseFloat L (Args pt ! i) \<noteq> None)
      then pt\<lparr>Color := Some \<lparr>Tag = (if length (Args pt) = 5 then Args pt ! 4 else []),
                 R = the (ParseFloat L (Args pt ! 0)), G = the (ParseFloat L (Args pt ! 1)),
                 B = the (ParseFloat L (Args pt ! 2)), A = the (ParseFloat L (Args pt ! 3))\<rparr>\<rparr>
      else pt)"
proof (cases "length (Args pt) = 4 \<or> length (Args pt) = 5")
  case False
  then show ?thesis by (simp add: parseProceduralColor_def)
next
  case True
  then have "\<forall>i<4. Args pt ! i \<in> set (Args pt)" by auto
  with t have "\<forall>i<4. parseFloatArg L (Args pt ! i) =
      (if Args pt ! i = [] then None else ParseFloat L (Args pt ! i))"
    by (simp add: parseFloatArg_trimmed)
  then have f: "parseFloatArg L (Args pt ! 0) = (if Args pt ! 0 = [] then None else ParseFloat L (Args pt ! 0))"
    "parseFloatArg L (Args pt ! 1) = (if Args pt ! 1 = [] then None else ParseFloat L (Args pt ! 1))"
    "parseFloatArg L (Args pt ! 2) = (if Args pt ! 2 = [] then None else ParseFloat L (Args pt ! 2))"
    "parseFloatArg L (Args pt ! 3) = (if Args pt ! 3 = [] then None else ParseFloat L (Args pt ! 3))"
    by (simp_all only: all_less4)
  from True show ?thesis
    unfolding parseProceduralColor_def all_less4 f
    by (auto split: option.splits)
qed


text \<open>C8: \<^verbatim>\<open>ParseTextureRef\<close> on \<^verbatim>\<open>#(argb,8,8,3)color(0.5,0.5,0.5,1.0,co)\<close> gives a
  procedural reference, parsed, with format \<^verbatim>\<open>argb\<close>, width, height and mip 8, 8 and 3,
  function \<^verbatim>\<open>color\<close> and the colour payload of the floats that \<^verbatim>\<open>ParseFloat\<close> reads
  from \<^verbatim>\<open>0.5\<close> and \<^verbatim>\<open>1.0\<close>, tagged \<^verbatim>\<open>co\<close>. In general, take a string
  \<^verbatim>\<open>#(fmt,ws,hs,ms)fn(a1,...,an)\<close> of the shape \<open>proceduralShape\<close>, whose three numbers
  \<^verbatim>\<open>Atoi\<close> reads, whose function name lower-cases to \<^verbatim>\<open>color\<close>, and that lower-casing does
  not turn into a string starting with \<^verbatim>\<open>texture="\<close>. \<^verbatim>\<open>ParseTextureRef\<close> returns a
  procedural reference that is parsed, with the trimmed header fields, name and arguments.
  Its colour payload holds the four floats that \<^verbatim>\<open>ParseFloat\<close> reads from the first four
  arguments, and the fifth argument as tag, when there are 4 or 5 arguments and the first
  four are non-empty and read by \<^verbatim>\<open>ParseFloat\<close>; with another number of arguments, or with
  one of the first four empty or not read by \<^verbatim>\<open>ParseFloat\<close>, the payload is absent and the
  reference is parsed all the same.\<close>

theorem C8_procedural_color:
  "(ParseFloat L ''0.5'' = Some h \<and> ParseFloat L ''1.0'' = Some u \<longrightarrow>
      ParseTextureRef L rawC8 =
        \<lparr>Procedural = Some \<lparr>Color = Some \<lparr>Tag = ''co'', R = h, G = h, B = h, A = u\<rparr>,
             Fresnel = None, Irradiance = None, Format = ''argb'', Func = ''color'',
             Args = [''0.5'', ''0.5'', ''0.5'', ''1.0'', ''co''], Width = 8, Height = 8, Mip = 3\<rparr>,
          Raw = rawC8, Kind = TextureKindProcedural, ParsedOK = True\<rparr>)
   \<and> (proceduralShape fmt ws hs ms fn as
        \<and> Atoi (TrimSpace ws) = Some wd \<and> Atoi (TrimSpace hs) = Some ht \<and> Atoi (TrimSpace ms) = Some mip
        \<and> ToLower L (TrimSpace fn) = ''color''
        \<and> raw = proceduralRaw fmt ws hs ms fn as
        \<and> \<not> HasPrefix (ToLower L raw) ''texture=\"''
        \<and> args = splitArgs as \<longrightarrow>
        ((length args = 4 \<or> length args = 5)
          \<and> args ! 0 \<noteq> [] \<and> ParseFloat L (args ! 0) = Some r
          \<and> args ! 1 \<noteq> [] \<and> ParseFloat L (args ! 1) = Some g
          \<and> args ! 2 \<noteq> [] \<and> ParseFloat L (args ! 2) = Some b
          \<and> args ! 3 \<noteq> [] \<and> ParseFloat L (args ! 3) = Some a \<longrightarrow>
          ParseTextureRef L raw =
            \<lparr>Procedural = Some \<lparr>Color = Some \<lparr>Tag = (if length args = 5 then args ! 4 else []),
                                                R = r, G = g, B = b, A = a\<rparr>,
                 Fresnel = None, Irradiance = None, Format = TrimSpace fmt, Func = TrimSpace fn,
                 Args = args, Width = wd, Height = ht, Mip = mip\<rparr>,
              Raw = raw, Kind = TextureKindProcedural, ParsedOK = True\<rparr>)
        \<and> (\<not> ((length args = 4 \<or> length args = 5)
                \<and> (\<forall>i<4. args ! i \<noteq> [] \<and> ParseFloat L (args ! i) \<noteq> None)) \<longrightarrow>
          ParseTextureRef L raw =
            \<lparr>Procedural = Some \<lparr>Color = None,
                 Fresnel = None, Irradiance = None, Format = TrimSpace fmt, Func = TrimSpace fn,
                 Args = args, Width = wd, Height = ht, Mip = mip\<rparr>,
              Raw = raw, Kind = TextureKindProcedural, ParsedOK = True\<rparr>))"
proof (intro conjI impI)
  assume "ParseFloat L ''0.5'' = Some h \<and> ParseFloat L ''1.0'' = Some u"
  then show "ParseTextureRef L rawC8 =
        \<lparr>Procedural = Some \<lparr>Color = Some \<lparr>Tag = ''co'', R = h, G = h, B = h, A = u\<rparr>,
             Fresnel = None, Irradiance = None, Format = ''argb'', Func = ''color'',
             Args = [''0.5'', ''0.5'', ''0.5'', ''1.0'', ''co''], Width = 8, Height = 8, Mip = 3\<rparr>,
          Raw = rawC8, Kind = TextureKindProcedural, ParsedOK = True\<rparr>"
    by (simp add: rawC8_def texture_defs string_defs Let_def)
next
  assume hyp: "proceduralShape fmt ws hs ms fn as
        \<and> Atoi (TrimSpace ws) = Some wd \<and> Atoi (TrimSpace hs) = Some ht \<and> Atoi (TrimSpace ms) = Some mip
        \<and> ToLower L (TrimSpace fn) = ''color''
        \<and> raw = proceduralRaw fmt ws hs ms fn as
        \<and> \<not> HasPrefix (ToLower L raw) ''texture=\"''
        \<and> args = splitArgs as"
  define pt0 :: "'a ProceduralTexture" where
    "pt0 = \<lparr>Color = None, Fresnel = None, Irradiance = None, Format = TrimSpace fmt,
            Func = TrimSpace fn, Args = args, Width = wd, Height = ht, Mip = mip\<rparr>"
  from hyp have sh: "\<forall>x \<in> set [fmt, ws, hs, ms]. CHR '','' \<notin> set x \<and> CHR '')'' \<notin> set x"
      "fn \<noteq> []" "solid (hd fn)" "CHR ''('' \<notin> set fn" "\<forall>a \<in> set as. CHR '','' \<notin> set a"
    by (simp_all add: proceduralShape_def)
  from hyp have at: "Atoi (TrimSpace ws) = Some wd" "Atoi (TrimSpace hs) = Some ht"
      "Atoi (TrimSpace ms) = Some mip"
    and nt: "\<not> HasPrefix (ToLower L (proceduralRaw fmt ws hs ms fn as)) ''texture=\"''"
    and raw: "raw = proceduralRaw fmt ws hs ms fn as" and args: "args = splitArgs as"
    and lo: "ToLower L (TrimSpace fn) = ''color''"
    by auto
  have ref: "ParseTextureRef L raw =
      \<lparr>Procedural = Some (parseProceduralArgs L pt0), Raw = raw, Kind = TextureKindProcedural,
        ParsedOK = True\<rparr>"
    unfolding raw pt0_def args by (rule ParseTextureRef_shape [OF sh at nt])
  from lo have pa: "parseProceduralArgs L pt0 = parseProceduralColor L pt0"
    by (simp add: parseProceduralArgs_def pt0_def)
  have tr: "\<forall>x \<in> set (Args pt0). TrimSpace x = x"
    by (simp add: pt0_def args splitArgs_trimmed)
  note col = parseProceduralColor_trimmed [OF tr, of L]
  {
    assume "(length args = 4 \<or> length args = 5)
          \<and> args ! 0 \<noteq> [] \<and> ParseFloat L (args ! 0) = Some r
          \<and> args ! 1 \<noteq> [] \<and> ParseFloat L (args ! 1) = Some g
          \<and> args ! 2 \<noteq> [] \<and> ParseFloat L (args ! 2) = Some b
          \<and> args ! 3 \<noteq> [] \<and> ParseFloat L (args ! 3) = Some a"
    then have "parseProceduralColor L pt0 =
        pt0\<lparr>Color := Some \<lparr>Tag = (if length args = 5 then args ! 4 else []),
                                                R = r, G = g, B = b, A = a\<rparr>\<rparr>"
      unfolding col by (simp add: pt0_def all_less4)
    then show "ParseTextureRef L raw =
            \<lparr>Procedural = Some \<lparr>Color = Some \<lparr>Tag = (if length args = 5 then args ! 4 else []),
                                                R = r, G = g, B = b, A = a\<rparr>,
                 Fresnel = None, Irradiance = None, Format = TrimSpace fmt, Func = TrimSpace fn,
                 Args = args, Width = wd, Height = ht, Mip = mip\<rparr>,
              Raw = raw, Kind = TextureKindProcedural, ParsedOK = True\<rparr>"
      unfolding ref pa by (simp add: pt0_def)
  }
  {
    assume "\<not> ((length args = 4 \<or> length args = 5)
                \<and> (\<forall>i<4. args ! i \<noteq> [] \<and> ParseFloat L (args ! i) \<noteq> None))"
    then have "parseProceduralColor L pt0 = pt0"
      unfolding col by (simp add: pt0_def)
    then show "ParseTextureRef L raw =
            \<lparr>Procedural = Some \<lparr>Color = None,
                 Fresnel = None, Irradiance = None, Format = TrimSpace fmt, Func = TrimSpace fn,
                 Args = args, Width = wd, Height = ht, Mip = mip\<rparr>,
              Raw = raw, Kind = TextureKindProcedural, ParsedOK = True\<rparr>"
      unfolding ref pa by (simp add: pt0_def)
  }
qed

definition argsC8 :: "string list" where
  "argsC8 = [''0.5'', ''0.5'', ''0.5'', ''1.0'', ''co'']"

theorem C8_procedural_color_witness:
  "proceduralShape ''argb'' ''8'' ''8'' ''3'' ''color'' argsC8
   \<and> proceduralShape ''argb'' ''8'' ''8'' ''3'' ''Color'' [''1'', ''x'', ''1'', ''1'']
   \<and> proceduralShape ''argb'' ''8'' ''8'' ''3'' ''color'' [''1'', ''1'', ''1'']
   \<and> Atoi (TrimSpace ''8'') = Some 8 \<and> Atoi (TrimSpace ''3'') = Some 3
   \<and> ToLower golib0 (TrimSpace ''color'') = ''color'' \<and> ToLower golib0 (TrimSpace ''Color'') = ''color''
   \<and> proceduralRaw ''argb'' ''8'' ''8'' ''3'' ''color'' argsC8 = rawC8
   \<and> \<not> HasPrefix (ToLower golib0 rawC8) ''texture=\"''
   \<and> splitArgs argsC8 = argsC8
   \<and> ParseFloat golib0 ''0.5'' = Some 0.5 \<and> ParseFloat golib0 ''1.0'' = Some 1
   \<and> ParseFloat golib0 ''x'' = None
   \<and> ParseTextureRef golib0 rawC8 =
        \<lparr>Procedural = Some \<lparr>Color = Some \<lparr>Tag = ''co'', R = 0.5, G = 0.5, B = 0.5, A = 1\<rparr>,
             Fresnel = None, Irradiance = None, Format = ''argb'', Func = ''color'',
             Args = argsC8, Width = 8, Height = 8, Mip = 3\<rparr>,
          Raw = rawC8, Kind = TextureKindProcedural, ParsedOK = True\<rparr>
   \<and> ParseTextureRef golib0 ''#(argb,8,8,3)Color(1,x,1,1)'' =
        \<lparr>Procedural = Some \<lparr>Color = None,
             Fresnel = None, Irradiance = None, Format = ''argb'', Func = ''Color'',
             Args = [''1'', ''x'', ''1'', ''1''], Width = 8, Height = 8, Mip = 3\<rparr>,
          Raw = ''#(argb,8,8,3)Color(1,x,1,1)'', Kind = TextureKindProcedural, ParsedOK = True\<rparr>
   \<and> ParseTextureRef golib0 ''#(argb,8,8,3)color(1,1,1)'' =
        \<lparr>Procedural = Some \<lparr>Color = None,
             Fresnel = None, Irradiance = None, Format = ''argb'', Func = ''color'',
             Args = [''1'', ''1'', ''1''], Width = 8, Height = 8, Mip = 3\<rparr>,
          Raw = ''#(argb,8,8,3)color(1,1,1)'', Kind = TextureKindProcedural, ParsedOK = True\<rparr>"
proof -
  have sh: "proceduralShape ''argb'' ''8'' ''8'' ''3'' ''color'' argsC8"
    "proceduralShape ''argb'' ''8'' ''8'' ''3'' ''Color'' [''1'', ''x'', ''1'', ''1'']"
    "proceduralShape ''argb'' ''8'' ''8'' ''3'' ''color'' [''1'', ''1'', ''1'']"
    by (simp_all add: proceduralShape_def solid_def byte_def asciiSpace_def argsC8_def)
  have at: "Atoi (TrimSpace ''8'') = Some 8" "Atoi (TrimSpace ''3'') = Some 3"
    by (simp_all add: Atoi_def isDigitByte_def digitsValue_def string_defs)
  have lo: "ToLower golib0 (TrimSpace ''color'') = ''color''" "ToLower golib0 (TrimSpace ''Color'') = ''color''"
    by (simp_all add: string_defs)
  have raw: "proceduralRaw ''argb'' ''8'' ''8'' ''3'' ''color'' argsC8 = rawC8"
    "proceduralRaw ''argb'' ''8'' ''8'' ''3'' ''Color'' [''1'', ''x'', ''1'', ''1''] = ''#(argb,8,8,3)Color(1,x,1,1)''"
    "proceduralRaw ''argb'' ''8'' ''8'' ''3'' ''color'' [''1'', ''1'', ''1''] = ''#(argb,8,8,3)color(1,1,1)''"
    by (simp_all add: proceduralRaw_def rawC8_def argsC8_def)
  have nt: "\<not> HasPrefix (ToLower golib0 rawC8) ''texture=\"''"
    "\<not> HasPrefix (ToLower golib0 ''#(argb,8,8,3)Color(1,x,1,1)'') ''texture=\"''"
    "\<not> HasPrefix (ToLower golib0 ''#(argb,8,8,3)color(1,1,1)'') ''texture=\"''"
    by (simp_all add: rawC8_def string_defs)
  have sa: "splitArgs argsC8 = argsC8"
    "splitArgs [''1'', ''x'', ''1'', ''1''] = [''1'', ''x'', ''1'', ''1'']"
    "splitArgs [''1'', ''1'', ''1''] = [''1'', ''1'', ''1'']"
    by (simp_all add: splitArgs_def argsC8_def string_defs)
  have pf: "ParseFloat golib0 ''0.5'' = Some 0.5" "ParseFloat golib0 ''1.0'' = Some 1"
    "ParseFloat golib0 ''x'' = None"
    by (simp_all add: golib0_def dec_simps)
  have t: "TrimSpace ''argb'' = ''argb''" "TrimSpace ''color'' = ''color''" "TrimSpace ''Color'' = ''Color''"
    by (simp_all add: string_defs)
  from C8_procedural_color [of golib0 "0.5" 1 "''argb''" "''8''" "''8''" "''3''" "''color''" argsC8
      8 8 3 rawC8 argsC8 "0.5" "0.5" "0.5" 1] sh(1) at lo(1) raw(1) nt(1) sa(1) pf
  have a: "ParseTextureRef golib0 rawC8 =
        \<lparr>Procedural = Some \<lparr>Color = Some \<lparr>Tag = ''co'', R = 0.5, G = 0.5, B = 0.5, A = 1\<rparr>,
             Fresnel = None, Irradiance = None, Format = ''argb'', Func = ''color'',
             Args = argsC8, Width = 8, Height = 8, Mip = 3\<rparr>,
          Raw = rawC8, Kind = TextureKindProcedural, ParsedOK = True\<rparr>"
    by (simp add: t) (simp add: argsC8_def)
  from C8_procedural_color [of golib0 "0.5" 1 "''argb''" "''8''" "''8''" "''3''" "''Color''"
      "[''1'', ''x'', ''1'', ''1'']" 8 8 3 "''#(argb,8,8,3)Color(1,x,1,1)''" "[''1'', ''x'', ''1'', ''1'']"]
    sh(2) at lo(2) raw(2) nt(2) sa(2) pf
  have b: "ParseTextureRef golib0 ''#(argb,8,8,3)Color(1,x,1,1)'' =
        \<lparr>Procedural = Some \<lparr>Color = None,
             Fresnel = None, Irradiance = None, Format = ''argb'', Func = ''Color'',
             Args = [''1'', ''x'', ''1'', ''1''], Width = 8, Height = 8, Mip = 3\<rparr>,
          Raw = ''#(argb,8,8,3)Color(1,x,1,1)'', Kind = TextureKindProcedural, ParsedOK = True\<rparr>"
    by (simp add: t all_less4)
  from C8_procedural_color [of golib0 "0.5" 1 "''argb''" "''8''" "''8''" "''3''" "''color''"
      "[''1'', ''1'', ''1'']" 8 8 3 "''#(argb,8,8,3)color(1,1,1)''" "[''1'', ''1'', ''1'']"]
    sh(3) at lo(1) raw(3) nt(3) sa(3) pf
  have c: "ParseTextureRef golib0 ''#(argb,8,8,3)color(1,1,1)'' =
        \<lparr>Procedural = Some \<lparr>Color = None,
             Fresnel = None, Irradiance = None, Format = ''argb'', Func = ''color'',
             Args = [''1'', ''1'', ''1''], Width = 8, Height = 8, Mip = 3\<rparr>,
          Raw = ''#(argb,8,8,3)color(1,1,1)'', Kind = TextureKindProcedural, ParsedOK = True\<rparr>"
    by (simp add: t)
  from sh at lo raw(1) nt(1) sa(1) pf a b c show ?thesis by blast
qed

subsection \<open>Decoding: binary input\<close>

lemma isBinaryRVMAT_iff:
  "isBinaryRVMAT data = (\<exists>i. i < length data \<and> i < 4096 \<and> byte (data ! i) = 0)"
proof -
  have "list_ex (\<lambda>b. byte b = 0) (take 4096 data) = (\<exists>i. i < length data \<and> i < 4096 \<and> byte (data ! i) = 0)"
  proof
    assume "list_ex (\<lambda>b. byte b = 0) (take 4096 data)"
    then obtain i where "i < length (take 4096 data)" "byte (take 4096 data ! i) = 0"
      by (auto simp: list_ex_iff in_set_conv_nth)
    then have "i < length data \<and> i < 4096 \<and> byte (data ! i) = 0" by simp
    then show "\<exists>i. i < length data \<and> i < 4096 \<and> byte (data ! i) = 0" ..
  next
    assume "\<exists>i. i < length data \<and> i < 4096 \<and> byte (data ! i) = 0"
    then obtain i where i: "i < length data" "i < 4096" "byte (data ! i) = 0" by blast
    then have "i < length (take 4096 data)" "take 4096 data ! i = data ! i" by simp_all
    then have "data ! i \<in> set (take 4096 data)" by (metis nth_mem)
    with i(3) show "list_ex (\<lambda>b. byte b = 0) (take 4096 data)" by (auto simp: list_ex_iff)
  qed
  moreover have "take 4096 data = [] \<Longrightarrow> \<not> list_ex (\<lambda>b. byte b = 0) (take 4096 data)" by simp
  ultimately show ?thesis unfolding isBinaryRVMAT_def Let_def by (simp only: length_0_conv) auto
qed

fun lexOrParse :: "error \<Rightarrow> bool" where
  "lexOrParse ErrBinaryRVMAT = False"
| "lexOrParse _ = True"

lemma readStringLoop_err: "snd (fst (readStringLoop l b)) = Some e \<Longrightarrow> lexOrParse e"
proof (induction l b rule: readStringLoop.induct)
  case (1 l b)
  from 1(4) show ?case
    apply (subst (asm) readStringLoop.simps)
    apply (simp add: lexError_def split: if_splits)
    using 1(1-3) apply auto
    done
qed

lemma readStringLoop_err2: "readStringLoop l b = ((x, Some e), l') \<Longrightarrow> lexOrParse e"
  using readStringLoop_err [of l b e] by simp

lemma lexNext_err: "snd (fst (lexNext L opt l)) = Some e \<Longrightarrow> lexOrParse e"
  by (auto simp: lexNext_def Let_def readString_def lexError_def mkToken_def
      split: if_splits prod.splits dest: readStringLoop_err2)


lemma pnext_err: "pnext L opt p = ((tok, Some e), p') \<Longrightarrow> lexOrParse e"
  using lexNext_err [of L opt "p_l p" e]
  by (auto simp: pnext_def split: if_splits prod.splits)

lemma ppeek_err: "ppeek L opt p = ((tok, Some e), p') \<Longrightarrow> lexOrParse e"
  using lexNext_err [of L opt "p_l p" e]
  by (auto simp: ppeek_def split: if_splits prod.splits option.splits)

lemma expect_err: "expect L opt tt p = Inl e \<Longrightarrow> lexOrParse e"
  by (auto simp: expect_def parseError_def split: prod.splits option.splits if_splits dest: pnext_err)

lemma expectSemicolon_err: "expectSemicolon L opt p = Inl e \<Longrightarrow> lexOrParse e"
  by (auto simp: expectSemicolon_def split: sum.splits prod.splits dest: expect_err)

lemma optBase_err: "optBase L opt p = Inl e \<Longrightarrow> lexOrParse e"
  by (auto simp: optBase_def split: sum.splits prod.splits if_splits dest: expect_err)

lemma optArray_err: "optArray L opt p = Inl e \<Longrightarrow> lexOrParse e"
  by (auto simp: optArray_def split: sum.splits prod.splits if_splits dest: expect_err)

lemma parseValue_err:
  "(parseValue L opt n p = Inl e \<longrightarrow> lexOrParse e)
   \<and> (parseArray L opt n p arr = Inl e \<longrightarrow> lexOrParse e)"
proof (induction n arbitrary: p arr)
  case 0
  show ?case by simp
next
  case (Suc n)
  show ?case
    using Suc
    by (auto simp: parseError_def arrayError_def split: sum.splits prod.splits option.splits if_splits
        dest: pnext_err ppeek_err)
qed

lemma numberArrayLoop_err: "numberArrayLoop L opt relaxed n p arr = Inl e \<Longrightarrow> lexOrParse e"
proof (induction n arbitrary: p arr)
  case 0
  then show ?case by auto
next
  case (Suc n)
  from Suc.prems show ?case
    using Suc.IH
    by (auto simp: parseError_def arrayError_def split: sum.splits prod.splits option.splits if_splits
        dest: pnext_err ppeek_err)
qed

lemma parseNumberArray_err: "parseNumberArray L opt n p = Inl e \<Longrightarrow> lexOrParse e"
  by (auto simp: parseNumberArray_def parseNumberArrayWithRelax_def split: sum.splits prod.splits
      dest: expect_err numberArrayLoop_err)

lemma parseNumberValue_err: "parseNumberValue L opt p = Inl e \<Longrightarrow> lexOrParse e"
  by (auto simp: parseNumberValue_def parseError_def split: sum.splits prod.splits option.splits
      dest: expect_err)

lemma parseStringValue_err: "parseStringValue L opt p = Inl e \<Longrightarrow> lexOrParse e"
  by (auto simp: parseStringValue_def parseError_def split: prod.splits option.splits if_splits
      dest: pnext_err)

lemma parseStringOrNumberValue_err: "parseStringOrNumberValue L opt r p = Inl e \<Longrightarrow> lexOrParse e"
  by (auto simp: parseStringOrNumberValue_def parseError_def split: prod.splits option.splits if_splits
      dest: pnext_err)

lemma parseAssign_err: "parseAssign L opt n p = Inl e \<Longrightarrow> lexOrParse e"
  using parseValue_err [of L opt n _ e]
  by (auto simp: parseAssign_def split: sum.splits prod.splits
      dest: expect_err optArray_err)

text \<open>The errors of the lexer and of the parser are never \<^verbatim>\<open>ErrBinaryRVMAT\<close>.\<close>

lemma parseNode_err:
  "(parseNode L opt n p = Inl e \<longrightarrow> lexOrParse e)
   \<and> (parseClass L opt n p = Inl e \<longrightarrow> lexOrParse e)
   \<and> (nodeLoop L opt n p body = Inl e \<longrightarrow> lexOrParse e)"
proof (induction n arbitrary: p body)
  case 0
  show ?case by simp
next
  case (Suc n)
  show ?case
    using Suc
    by (auto split: sum.splits prod.splits option.splits if_splits
        dest: ppeek_err expect_err optBase_err parseAssign_err)
qed

lemma parseClassBody_err: "parseClassBody L opt n name base p = Inl e \<Longrightarrow> lexOrParse e"
  using parseNode_err [of L opt n _ e]
  by (auto simp: parseClassBody_def split: sum.splits prod.splits dest: expect_err)

lemma uvLoop_err: "uvLoop L opt n p uv = Inl e \<Longrightarrow> lexOrParse e"
proof (induction n arbitrary: p uv)
  case 0
  then show ?case by auto
next
  case (Suc n)
  from Suc.prems show ?case
    using Suc.IH
    by (auto split: sum.splits prod.splits option.splits if_splits
        dest: ppeek_err expect_err optArray_err parseNumberArray_err expectSemicolon_err)
qed

lemma parseUVTransformBody_err: "parseUVTransformBody L opt n p = Inl e \<Longrightarrow> lexOrParse e"
  by (auto simp: parseUVTransformBody_def split: sum.splits prod.splits
      dest: expect_err uvLoop_err expectSemicolon_err)

lemma parseStageClass_err: "parseStageClass L opt n p st = Inl e \<Longrightarrow> lexOrParse e"
  by (auto simp: parseStageClass_def split: sum.splits prod.splits if_splits
      dest: expect_err optBase_err parseUVTransformBody_err parseClassBody_err)

lemma parseStageAssign_err: "parseStageAssign L opt n p st = Inl e \<Longrightarrow> lexOrParse e"
  using parseValue_err [of L opt n _ e]
  by (auto simp: parseStageAssign_def split: sum.splits prod.splits if_splits
      dest: expect_err optArray_err parseStringValue_err parseStringOrNumberValue_err
        expectSemicolon_err)

lemma stageLoop_err: "stageLoop L opt n p st = Inl e \<Longrightarrow> lexOrParse e"
proof (induction n arbitrary: p st)
  case 0
  then show ?case by auto
next
  case (Suc n)
  from Suc.prems show ?case
    using Suc.IH
    by (auto split: sum.splits prod.splits option.splits if_splits
        dest: ppeek_err parseStageClass_err parseStageAssign_err)
qed

lemma parseStageBody_err: "parseStageBody L opt n name p = Inl e \<Longrightarrow> lexOrParse e"
  by (auto simp: parseStageBody_def split: sum.splits prod.splits
      dest: expect_err stageLoop_err)

lemma parseTexGenClass_err: "parseTexGenClass L opt n p tg = Inl e \<Longrightarrow> lexOrParse e"
  by (auto simp: parseTexGenClass_def split: sum.splits prod.splits if_splits
      dest: expect_err optBase_err parseUVTransformBody_err parseClassBody_err)

lemma parseTexGenAssign_err: "parseTexGenAssign L opt n p tg = Inl e \<Longrightarrow> lexOrParse e"
  using parseValue_err [of L opt n _ e]
  by (auto simp: parseTexGenAssign_def split: sum.splits prod.splits if_splits
      dest: expect_err optArray_err parseStringValue_err expectSemicolon_err)

lemma texGenLoop_err: "texGenLoop L opt n p tg = Inl e \<Longrightarrow> lexOrParse e"
proof (induction n arbitrary: p tg)
  case 0
  then show ?case by auto
next
  case (Suc n)
  from Suc.prems show ?case
    using Suc.IH
    by (auto split: sum.splits prod.splits option.splits if_splits
        dest: ppeek_err parseTexGenClass_err parseTexGenAssign_err)
qed

lemma parseTexGenBody_err: "parseTexGenBody L opt n name base p = Inl e \<Longrightarrow> lexOrParse e"
  by (auto simp: parseTexGenBody_def split: sum.splits prod.splits
      dest: expect_err texGenLoop_err)

lemma parseTopClass_err: "parseTopClass L opt n p m = Inl e \<Longrightarrow> lexOrParse e"
  by (auto simp: parseTopClass_def split: sum.splits prod.splits if_splits
      dest: expect_err optBase_err parseStageBody_err parseTexGenBody_err parseClassBody_err)

lemma parseTopAssign_err: "parseTopAssign L opt n p m = Inl e \<Longrightarrow> lexOrParse e"
  using parseValue_err [of L opt n _ e]
  by (auto simp: parseTopAssign_def split: sum.splits prod.splits if_splits
      dest: expect_err optArray_err parseStringValue_err parseNumberValue_err parseNumberArray_err
        expectSemicolon_err)

lemma parseMaterial_err: "parseMaterial L opt n p m = Inl e \<Longrightarrow> lexOrParse e"
proof (induction n arbitrary: p m)
  case 0
  then show ?case by auto
next
  case (Suc n)
  from Suc.prems show ?case
    using Suc.IH
    by (auto split: sum.splits prod.splits option.splits if_splits
        dest: ppeek_err parseTopClass_err parseTopAssign_err)
qed


text \<open>C6: an input with a zero byte among its first 4096 bytes makes \<^verbatim>\<open>Decode\<close> and
  \<^verbatim>\<open>Parse\<close> return \<^verbatim>\<open>ErrBinaryRVMAT\<close>, whatever the other bytes are; an input with no
  zero byte there is not classified as binary, \<^verbatim>\<open>Decode\<close> returns what the parser returns
  on it, and that is never \<^verbatim>\<open>ErrBinaryRVMAT\<close>.\<close>

theorem C6_binary_rejection:
  "((\<exists>i. i < length data \<and> i < 4096 \<and> byte (data ! i) = 0) \<longrightarrow>
      Decode L data opt = Inl ErrBinaryRVMAT \<and> Parse L data opt = Inl ErrBinaryRVMAT)
   \<and> (\<not> (\<exists>i. i < length data \<and> i < 4096 \<and> byte (data ! i) = 0) \<longrightarrow>
        \<not> isBinaryRVMAT data
        \<and> Decode L data opt \<noteq> Inl ErrBinaryRVMAT \<and> Parse L data opt \<noteq> Inl ErrBinaryRVMAT
        \<and> Decode L data opt =
            parseMaterial L (normalizeParseOptions opt) (parseFuel data) (newParser data) zeroMaterial
        \<and> Parse L data opt = Decode L data opt)"
proof (intro conjI impI)
  assume "\<exists>i. i < length data \<and> i < 4096 \<and> byte (data ! i) = 0"
  then have b: "isBinaryRVMAT data" by (simp only: isBinaryRVMAT_iff)
  then show "Decode L data opt = Inl ErrBinaryRVMAT" by (simp add: Decode_def Let_def)
  with b show "Parse L data opt = Inl ErrBinaryRVMAT" by (simp add: Parse_def)
next
  assume "\<not> (\<exists>i. i < length data \<and> i < 4096 \<and> byte (data ! i) = 0)"
  then show n: "\<not> isBinaryRVMAT data" by (simp only: isBinaryRVMAT_iff not_False_eq_True)
  then show d: "Decode L data opt =
      parseMaterial L (normalizeParseOptions opt) (parseFuel data) (newParser data) zeroMaterial"
    by (simp add: Decode_def Let_def)
  have "\<not> lexOrParse ErrBinaryRVMAT" by simp
  then have "parseMaterial L (normalizeParseOptions opt) (parseFuel data) (newParser data) zeroMaterial
      \<noteq> Inl ErrBinaryRVMAT"
    using parseMaterial_err by blast
  with d show "Decode L data opt \<noteq> Inl ErrBinaryRVMAT" by simp
  then show "Parse L data opt \<noteq> Inl ErrBinaryRVMAT" by (simp add: Parse_def)
  show "Parse L data opt = Decode L data opt" by (simp add: Parse_def)
qed

definition dataC6 :: string where
  "dataC6 = ''ambient[] = {1};'' @ [CHR 0x00] @ ''diffuse[] = {1};''"

theorem C6_binary_rejection_witness:
  "16 < length dataC6 \<and> byte (dataC6 ! 16) = 0
   \<and> Decode golib0 dataC6 None = Inl ErrBinaryRVMAT \<and> Parse golib0 dataC6 None = Inl ErrBinaryRVMAT
   \<and> \<not> (\<exists>i. i < length ''a = b;'' \<and> i < 4096 \<and> byte (''a = b;'' ! i) = 0)
   \<and> \<not> isBinaryRVMAT ''a = b;''
   \<and> Parse golib0 ''a = b;'' None \<noteq> Inl ErrBinaryRVMAT"
proof -
  have a: "16 < length dataC6 \<and> byte (dataC6 ! 16) = 0"
    by (simp add: dataC6_def byte_def)
  then have e: "\<exists>i. i < length dataC6 \<and> i < 4096 \<and> byte (dataC6 ! i) = 0"
    by (intro exI [of _ 16]) simp
  have "\<And>i. i < length ''a = b;'' \<Longrightarrow> byte (''a = b;'' ! i) \<noteq> 0"
  proof -
    fix i :: nat assume "i < length ''a = b;''"
    then have "''a = b;'' ! i \<in> set ''a = b;''" by (rule nth_mem)
    then show "byte (''a = b;'' ! i) \<noteq> 0" by (auto simp: byte_def)
  qed
  then have n: "\<not> (\<exists>i. i < length ''a = b;'' \<and> i < 4096 \<and> byte (''a = b;'' ! i) = 0)"
    by blast
  from C6_binary_rejection [of dataC6 golib0 None] C6_binary_rejection [of "''a = b;''" golib0 None] a e n
  show ?thesis by blast
qed

end
